theory Spec2Isabelle
  imports Complex_Main
begin

section \<open>Text primitives of the host language\<close>

text \<open>
  A Python \<open>str\<close> is modelled as a \<open>string\<close>; every \<open>char\<close> stands for one code point
  below 256. The character classes below are the ones Python 3 uses on that range.
\<close>

abbreviation nl :: string where
  "nl \<equiv> [CHR 0x0A]"

text \<open>\<open>s.startswith(p)\<close>\<close>

fun startswith :: "string \<Rightarrow> string \<Rightarrow> bool" where
  "startswith s [] = True"
| "startswith [] (p # ps) = False"
| "startswith (c # cs) (p # ps) = (c = p \<and> startswith cs ps)"

text \<open>The characters that \<open>str.strip()\<close> and \<open>str.split()\<close> treat as white space.\<close>

definition isspace :: "char \<Rightarrow> bool" where
  "isspace c = (c \<in> set [CHR 0x09, CHR 0x0A, CHR 0x0B, CHR 0x0C, CHR 0x0D, CHR 0x1C,
                          CHR 0x1D, CHR 0x1E, CHR 0x1F, CHR 0x20, CHR 0x85, CHR 0xA0])"

definition strip_with :: "(char \<Rightarrow> bool) \<Rightarrow> string \<Rightarrow> string" where
  "strip_with P s = rev (dropWhile P (rev (dropWhile P s)))"

text \<open>\<open>s.strip()\<close>\<close>

definition strip :: "string \<Rightarrow> string" where
  "strip s = strip_with isspace s"

text \<open>
  \<open>s.lower()\<close> and \<open>s.upper()\<close>, character by character. Three characters of the range
  have an upper-case form that is not a single character of the range (0xB5, 0xDF, 0xFF);
  they are left unchanged here. The program compares upper-cased characters with
  \<open>E\<close>, \<open>X\<close> and \<open>Y\<close> only, and none of the three maps to one of these.
\<close>

definition upper_chars :: "char list" where
  "upper_chars =
     [CHR ''A'', CHR ''B'', CHR ''C'', CHR ''D'', CHR ''E'', CHR ''F'', CHR ''G'', CHR ''H'',
      CHR ''I'', CHR ''J'', CHR ''K'', CHR ''L'', CHR ''M'', CHR ''N'', CHR ''O'', CHR ''P'',
      CHR ''Q'', CHR ''R'', CHR ''S'', CHR ''T'', CHR ''U'', CHR ''V'', CHR ''W'', CHR ''X'',
      CHR ''Y'', CHR ''Z'', CHR 0xC0, CHR 0xC1, CHR 0xC2, CHR 0xC3, CHR 0xC4, CHR 0xC5,
      CHR 0xC6, CHR 0xC7, CHR 0xC8, CHR 0xC9, CHR 0xCA, CHR 0xCB, CHR 0xCC, CHR 0xCD,
      CHR 0xCE, CHR 0xCF, CHR 0xD0, CHR 0xD1, CHR 0xD2, CHR 0xD3, CHR 0xD4, CHR 0xD5,
      CHR 0xD6, CHR 0xD8, CHR 0xD9, CHR 0xDA, CHR 0xDB, CHR 0xDC, CHR 0xDD, CHR 0xDE]"

definition lower_chars :: "char list" where
  "lower_chars =
     [CHR ''a'', CHR ''b'', CHR ''c'', CHR ''d'', CHR ''e'', CHR ''f'', CHR ''g'', CHR ''h'',
      CHR ''i'', CHR ''j'', CHR ''k'', CHR ''l'', CHR ''m'', CHR ''n'', CHR ''o'', CHR ''p'',
      CHR ''q'', CHR ''r'', CHR ''s'', CHR ''t'', CHR ''u'', CHR ''v'', CHR ''w'', CHR ''x'',
      CHR ''y'', CHR ''z'', CHR 0xE0, CHR 0xE1, CHR 0xE2, CHR 0xE3, CHR 0xE4, CHR 0xE5,
      CHR 0xE6, CHR 0xE7, CHR 0xE8, CHR 0xE9, CHR 0xEA, CHR 0xEB, CHR 0xEC, CHR 0xED,
      CHR 0xEE, CHR 0xEF, CHR 0xF0, CHR 0xF1, CHR 0xF2, CHR 0xF3, CHR 0xF4, CHR 0xF5,
      CHR 0xF6, CHR 0xF8, CHR 0xF9, CHR 0xFA, CHR 0xFB, CHR 0xFC, CHR 0xFD, CHR 0xFE]"

definition lower_char :: "char \<Rightarrow> char" where
  "lower_char c = (case map_of (zip upper_chars lower_chars) c of Some d \<Rightarrow> d | None \<Rightarrow> c)"

definition upper_char :: "char \<Rightarrow> char" where
  "upper_char c = (case map_of (zip lower_chars upper_chars) c of Some d \<Rightarrow> d | None \<Rightarrow> c)"

definition lower :: "string \<Rightarrow> string" where
  "lower s = map lower_char s"

text \<open>\<open>s.split(sep)\<close> for a non-empty separator: every occurrence splits.\<close>

function py_split_aux :: "string \<Rightarrow> string \<Rightarrow> string \<Rightarrow> string list" where
  "py_split_aux sep acc [] = [acc]"
| "py_split_aux sep acc (c # cs) =
     (if sep \<noteq> [] \<and> startswith (c # cs) sep
      then acc # py_split_aux sep [] (drop (length sep) (c # cs))
      else py_split_aux sep (acc @ [c]) cs)"
  by pat_completeness auto
termination
  by (relation "measure (\<lambda>(sep, acc, s). length s)") auto

definition py_split :: "string \<Rightarrow> string \<Rightarrow> string list" where
  "py_split sep s = py_split_aux sep [] s"

text \<open>\<open>s.split(sep, maxsplit=1)\<close>: only the first occurrence splits.\<close>

fun py_split1_aux :: "string \<Rightarrow> string \<Rightarrow> string \<Rightarrow> string list" where
  "py_split1_aux sep acc [] = [acc]"
| "py_split1_aux sep acc (c # cs) =
     (if sep \<noteq> [] \<and> startswith (c # cs) sep
      then [acc, drop (length sep) (c # cs)]
      else py_split1_aux sep (acc @ [c]) cs)"

definition py_split1 :: "string \<Rightarrow> string \<Rightarrow> string list" where
  "py_split1 sep s = py_split1_aux sep [] s"

text \<open>\<open>xs[1]\<close>; \<open>None\<close> stands for the IndexError of a list that is too short.\<close>

fun item1 :: "'a list \<Rightarrow> 'a option" where
  "item1 (x # y # zs) = Some y"
| "item1 zs = None"

text \<open>\<open>s.split()\<close>: the maximal runs of characters that are not white space.\<close>

fun py_words_aux :: "string \<Rightarrow> string \<Rightarrow> string list" where
  "py_words_aux acc [] = (if acc = [] then [] else [acc])"
| "py_words_aux acc (c # cs) =
     (if isspace c then (if acc = [] then [] else [acc]) @ py_words_aux [] cs
      else py_words_aux (acc @ [c]) cs)"

definition py_words :: "string \<Rightarrow> string list" where
  "py_words s = py_words_aux [] s"

text \<open>\<open>sep.join(xs)\<close>\<close>

fun py_join :: "string \<Rightarrow> string list \<Rightarrow> string" where
  "py_join sep [] = []"
| "py_join sep [x] = x"
| "py_join sep (x # y # zs) = x @ sep @ py_join sep (y # zs)"

text \<open>
  A file opened for reading in text mode translates line ends: the reader turns every
  carriage return with a line feed behind it, and every other carriage return, into one
  line feed. What the program reads from such a file is the translated text, in which
  the line feed is the only line end.
\<close>

fun universal_newlines :: "string \<Rightarrow> string" where
  "universal_newlines [] = []"
| "universal_newlines [c] = [if c = CHR 0x0D then CHR 0x0A else c]"
| "universal_newlines (c # d # cs) =
     (if c = CHR 0x0D \<and> d = CHR 0x0A then CHR 0x0A # universal_newlines cs
      else if c = CHR 0x0D then CHR 0x0A # universal_newlines (d # cs)
      else c # universal_newlines (d # cs))"

text \<open>
  Iterating a text stream yields its lines, each with its line feed; a last line without
  one is yielded too, and an empty stream yields nothing. The argument is the text that
  the stream delivers: for a file of the driver that is the translated text above, and
  the driver is the only place where the content of a file becomes such a text.
\<close>

fun readlines_aux :: "string \<Rightarrow> string \<Rightarrow> string list" where
  "readlines_aux acc [] = (if acc = [] then [] else [acc])"
| "readlines_aux acc (c # cs) =
     (if c = CHR 0x0A then (acc @ [c]) # readlines_aux [] cs
      else readlines_aux (acc @ [c]) cs)"

definition readlines :: "string \<Rightarrow> string list" where
  "readlines s = readlines_aux [] s"

text \<open>\<open>str(n)\<close> for an integer, in decimal.\<close>

definition digit_char :: "nat \<Rightarrow> char" where
  "digit_char d = ''0123456789'' ! d"

fun str_nat :: "nat \<Rightarrow> string" where
  "str_nat n = (if n < 10 then [digit_char n] else str_nat (n div 10) @ [digit_char (n mod 10)])"

declare str_nat.simps [simp del]

definition str_int :: "int \<Rightarrow> string" where
  "str_int i = (if i < 0 then CHR ''-'' # str_nat (nat (- i)) else str_nat (nat i))"

section \<open>Values and the library functions the program calls\<close>

datatype error = KeyError | ValueError | TypeError | AssertionError | IndexError
  | RuntimeError | JSONDecodeError | FileNotFoundError | UnicodeDecodeError

text \<open>
  The values that \<open>json.loads\<close> produces, which are also the values that flow into the
  marker renderer. A tuple of the program is a \<open>PList\<close>. A float is a rational number:
  comparisons of floats that are not NaN are exact, rounding is not modelled.
\<close>

datatype pyval = PNone | PBool bool | PInt int | PFloat rat | PStr string
  | PList "pyval list" | PDict "(string \<times> pyval) list"

text \<open>
  Functions of the Python library that parse and print numbers and JSON. They are
  parameters of the model; a failed parse (\<open>ValueError\<close>) is \<open>None\<close>.
  \<open>file_decode\<close> is the codec with which a file opened for reading in text mode turns
  its bytes into characters (\<open>None\<close> is the UnicodeDecodeError of bytes that are no text),
  and \<open>file_encode\<close> is what a file opened for writing in text mode stores for a
  text: every line feed becomes the line separator of the platform and the characters
  are encoded.
\<close>

record pylib =
  float_of_str :: "string \<Rightarrow> rat option"
  int_of_str :: "string \<Rightarrow> int option"
  str_of_float :: "rat \<Rightarrow> string"
  repr_of :: "pyval \<Rightarrow> string"
  json_loads :: "string \<Rightarrow> pyval option"
  json_dumps :: "pyval \<Rightarrow> string"
  file_decode :: "string \<Rightarrow> string option"
  file_encode :: "string \<Rightarrow> string"

text \<open>Truth value of an object in a condition.\<close>

fun truthy :: "pyval \<Rightarrow> bool" where
  "truthy PNone = False"
| "truthy (PBool b) = b"
| "truthy (PInt i) = (i \<noteq> 0)"
| "truthy (PFloat f) = (f \<noteq> 0)"
| "truthy (PStr s) = (s \<noteq> [])"
| "truthy (PList xs) = (xs \<noteq> [])"
| "truthy (PDict d) = (d \<noteq> [])"

text \<open>\<open>str(v)\<close>\<close>

fun py_str :: "pylib \<Rightarrow> pyval \<Rightarrow> string" where
  "py_str lib PNone = ''None''"
| "py_str lib (PBool b) = (if b then ''True'' else ''False'')"
| "py_str lib (PInt i) = str_int i"
| "py_str lib (PFloat f) = str_of_float lib f"
| "py_str lib (PStr s) = s"
| "py_str lib (PList xs) = repr_of lib (PList xs)"
| "py_str lib (PDict d) = repr_of lib (PDict d)"

text \<open>The items that iterating over a value yields; numbers and None cannot be iterated.\<close>

fun iter_items :: "pyval \<Rightarrow> error + pyval list" where
  "iter_items (PList xs) = Inr xs"
| "iter_items (PStr s) = Inr (map (\<lambda>c. PStr [c]) s)"
| "iter_items (PDict d) = Inr (map (\<lambda>kv. PStr (fst kv)) d)"
| "iter_items v = Inl TypeError"

section \<open>Hull tracking\<close>

type_synonym 'a Point = "'a \<times> 'a"

text \<open>
  The point set of a tracker is kept as the list of its elements in the order in which
  the set is iterated. The field \<open>pos\<close> of the class is never read and is left out.
\<close>

record 'a HullTracker =
  points :: "'a Point list"

definition new_hull :: "'a HullTracker" where
  "new_hull = \<lparr>points = []\<rparr>"

definition add_point :: "'a Point \<Rightarrow> 'a HullTracker \<Rightarrow> 'a HullTracker" where
  "add_point p h = (if p \<in> set (points h) then h else h\<lparr>points := points h @ [p]\<rparr>)"

definition center :: "('a::field) HullTracker \<Rightarrow> 'a Point option" where
  "center h =
     (if points h \<noteq> []
      then Some (sum_list (map fst (points h)) / of_nat (length (points h)),
                 sum_list (map snd (points h)) / of_nat (length (points h)))
      else None)"

definition boundingbox :: "'a Point \<Rightarrow> 'a Point \<Rightarrow> 'a Point list" where
  "boundingbox pmin pmax =
     [(fst pmin, snd pmin), (fst pmin, snd pmax), (fst pmax, snd pmax), (fst pmax, snd pmin)]"

fun exterior_loop :: "'a \<times> 'a \<times> 'a \<times> 'a \<Rightarrow> ('a::linorder) Point list \<Rightarrow> 'a \<times> 'a \<times> 'a \<times> 'a" where
  "exterior_loop (min_x, max_x, min_y, max_y) [] = (min_x, max_x, min_y, max_y)"
| "exterior_loop (min_x, max_x, min_y, max_y) ((x, y) # ps) =
     exterior_loop (if x < min_x then x else min_x, if x > max_x then x else max_x,
                    if y < min_y then y else min_y, if y > max_y then y else max_y) ps"

definition exterior :: "('a::linorder) HullTracker \<Rightarrow> 'a Point list option" where
  "exterior h =
     (case points h of
        [] \<Rightarrow> None
      | first # rest \<Rightarrow>
          (case exterior_loop (fst first, fst first, snd first, snd first) rest of
             (min_x, max_x, min_y, max_y) \<Rightarrow> Some (boundingbox (min_x, min_y) (max_x, max_y))))"

text \<open>The field \<open>hull\<close> of the source is \<open>obj_hull\<close> here.\<close>

record KnownObject =
  name :: string
  obj_hull :: "rat HullTracker"

section \<open>Marker rendering\<close>

definition HEADER_MARKER :: string where
  "HEADER_MARKER = ''; Pre-Processed for Cancel-Object support'' @ nl"

definition dump_coords :: "pylib \<Rightarrow> pyval \<Rightarrow> error + string" where
  "dump_coords lib coords =
     (case iter_items coords of
        Inl e \<Rightarrow> Inl e
      | Inr xs \<Rightarrow> Inr (py_join '','' (map (py_str lib) xs)))"

text \<open>The characters matched by \<open>\w\<close>: alphanumeric or underscore.\<close>

definition isalnum :: "char \<Rightarrow> bool" where
  "isalnum c =
     (let n = (of_char c :: nat)
      in (48 \<le> n \<and> n \<le> 57) \<or> (65 \<le> n \<and> n \<le> 90) \<or> (97 \<le> n \<and> n \<le> 122)
         \<or> n = 170 \<or> n = 178 \<or> n = 179 \<or> n = 181 \<or> n = 185 \<or> n = 186
         \<or> (188 \<le> n \<and> n \<le> 190) \<or> (192 \<le> n \<and> n \<le> 214)
         \<or> (216 \<le> n \<and> n \<le> 246) \<or> (248 \<le> n \<and> n \<le> 255))"

definition is_word :: "char \<Rightarrow> bool" where
  "is_word c = (isalnum c \<or> c = CHR ''_'')"

text \<open>
  \<open>re.sub(r"\W+", "_", s)\<close>: scanning from the left, a character outside \<open>\w\<close> starts a
  match that greedily takes every following character outside \<open>\w\<close>; the match is
  replaced by one underscore and the scan goes on behind it.
\<close>

function re_sub_nonword :: "string \<Rightarrow> string" where
  "re_sub_nonword [] = []"
| "re_sub_nonword (c # cs) =
     (if is_word c then c # re_sub_nonword cs
      else CHR ''_'' # re_sub_nonword (dropWhile (\<lambda>d. \<not> is_word d) cs))"
  by pat_completeness auto
termination
  by (relation "measure length") (auto simp: less_Suc_eq_le length_dropWhile_le)

definition clean_id :: "string \<Rightarrow> string" where
  "clean_id ident = strip_with (\<lambda>c. c = CHR ''_'') (re_sub_nonword ident)"

text \<open>
  The sanitization as the specification words it: the text is cut into its maximal runs
  of characters of one kind (inside or outside \<open>\w\<close>), every run outside \<open>\w\<close> becomes one
  underscore, and underscores are removed from both ends.
\<close>

function spec_runs :: "string \<Rightarrow> string list" where
  "spec_runs [] = []"
| "spec_runs (c # cs) =
     (c # takeWhile (\<lambda>d. is_word d = is_word c) cs)
       # spec_runs (dropWhile (\<lambda>d. is_word d = is_word c) cs)"
  by pat_completeness auto
termination
  by (relation "measure length") (auto simp: less_Suc_eq_le length_dropWhile_le)

definition spec_collapse_run :: "string \<Rightarrow> string" where
  "spec_collapse_run r = (if list_all is_word r then r else ''_'')"

definition spec_clean_id :: "string \<Rightarrow> string" where
  "spec_clean_id s =
     strip_with (\<lambda>c. c = CHR ''_'') (concat (map spec_collapse_run (spec_runs s)))"

definition header :: "int \<Rightarrow> string list" where
  "header object_count =
     [nl @ nl, HEADER_MARKER, ''; '' @ str_int object_count @ '' known objects'' @ nl]"

text \<open>
  \<open>define_object\<close> yields its pieces one by one; rendering the centre can raise after the
  first piece has been yielded. No caller passes \<open>region\<close>, whose branch is left out.
\<close>

definition define_object :: "pylib \<Rightarrow> string \<Rightarrow> pyval \<Rightarrow> pyval \<Rightarrow> string list \<times> error option" where
  "define_object lib nm center_v polygon_v =
     (let first = ''DEFINE_OBJECT NAME='' @ nm;
          poly = (if truthy polygon_v then ['' POLYGON='' @ json_dumps lib polygon_v] else [])
      in if truthy center_v
         then (case dump_coords lib center_v of
                 Inl e \<Rightarrow> ([first], Some e)
               | Inr s \<Rightarrow> ([first, '' CENTER='' @ s] @ poly @ [nl], None))
         else ([first] @ poly @ [nl], None))"

definition object_start_marker :: "string \<Rightarrow> string list" where
  "object_start_marker object_name = [''START_CURRENT_OBJECT NAME='' @ object_name @ nl]"

definition object_end_marker :: "string \<Rightarrow> string list" where
  "object_end_marker object_name = [''END_CURRENT_OBJECT NAME='' @ object_name @ nl]"

text \<open>What \<open>center()\<close> and \<open>exterior()\<close> hand to the renderer.\<close>

definition point_val :: "rat Point \<Rightarrow> pyval" where
  "point_val p = PList [PFloat (fst p), PFloat (snd p)]"

definition center_val :: "rat HullTracker \<Rightarrow> pyval" where
  "center_val h = (case center h of None \<Rightarrow> PNone | Some p \<Rightarrow> point_val p)"

definition exterior_val :: "rat HullTracker \<Rightarrow> pyval" where
  "exterior_val h = (case exterior h of None \<Rightarrow> PNone | Some ps \<Rightarrow> PList (map point_val ps))"

section \<open>The object registry\<close>

text \<open>
  A dictionary keeps its keys in insertion order: an association list with one entry
  for each key. Storing under a key that is present replaces the value in place.
\<close>

fun dict_set :: "'k \<Rightarrow> 'v \<Rightarrow> ('k \<times> 'v) list \<Rightarrow> ('k \<times> 'v) list" where
  "dict_set k v [] = [(k, v)]"
| "dict_set k v ((k', v') # kvs) =
     (if k' = k then (k, v) # kvs else (k', v') # dict_set k v kvs)"

type_synonym registry = "(string \<times> KnownObject) list"

text \<open>\<open>if key not in known_objects: known_objects[key] = KnownObject(nm, HullTracker())\<close>\<close>

definition register :: "registry \<Rightarrow> string \<Rightarrow> string \<Rightarrow> registry" where
  "register known key nm =
     (if map_of known key = None then known @ [(key, \<lparr>name = nm, obj_hull = new_hull\<rparr>)]
      else known)"

text \<open>
  \<open>current_hull\<close> refers to the tracker stored in the registry under some key; the
  reference is modelled by that key, and adding a point updates the entry.
\<close>

fun add_point_to :: "registry \<Rightarrow> string \<Rightarrow> rat Point \<Rightarrow> registry" where
  "add_point_to [] key p = []"
| "add_point_to ((k, obj) # kvs) key p =
     (if k = key then (k, obj\<lparr>obj_hull := add_point p (obj_hull obj)\<rparr>) # kvs
      else (k, obj) # add_point_to kvs key p)"

section \<open>Geometry of a line of G-code\<close>

text \<open>
  \<open>parse_gcode\<close>: the first token is the command, every other token is stored under its
  upper-cased first character. \<open>None\<close> is the ValueError of a line without any token.
\<close>

definition parse_gcode :: "string \<Rightarrow> (string \<times> (string \<times> string) list) option" where
  "parse_gcode line =
     (case py_words (strip line) of
        [] \<Rightarrow> None
      | command # params \<Rightarrow>
          Some (command, fold (\<lambda>p d. dict_set (map upper_char (take 1 p)) (drop 1 p) d) params []))"

text \<open>
  The block that the three scan passes share: the point of a line whose text starts with
  \<open>g\<close> or \<open>G\<close> and that carries \<open>E\<close>, \<open>X\<close> and \<open>Y\<close>.
\<close>

definition gcode_point :: "pylib \<Rightarrow> string \<Rightarrow> error + rat Point option" where
  "gcode_point lib line =
     (if startswith (lower (strip line)) ''g''
      then (case parse_gcode line of
              None \<Rightarrow> Inl ValueError
            | Some (command, params) \<Rightarrow>
                (case (map_of params ''E'', map_of params ''X'', map_of params ''Y'') of
                   (Some e, Some xs, Some ys) \<Rightarrow>
                     (case float_of_str lib xs of
                        None \<Rightarrow> Inl ValueError
                      | Some x \<Rightarrow>
                          (case float_of_str lib ys of
                             None \<Rightarrow> Inl ValueError
                           | Some y \<Rightarrow> Inr (Some (x, y))))
                 | _ \<Rightarrow> Inr None))
      else Inr None)"

definition track_point :: "pylib \<Rightarrow> registry \<Rightarrow> string option \<Rightarrow> string \<Rightarrow> error + registry" where
  "track_point lib known current_hull line =
     (case current_hull of
        None \<Rightarrow> Inr known
      | Some key \<Rightarrow>
          (case gcode_point lib line of
             Inl e \<Rightarrow> Inl e
           | Inr None \<Rightarrow> Inr known
           | Inr (Some p) \<Rightarrow> Inr (add_point_to known key p)))"

section \<open>Generators\<close>

text \<open>
  A generator is modelled by the pieces it yields and the exception that ends it, if any.
  \<open>then_emit\<close> runs a second generator after a first.
\<close>

type_synonym emitted = "string list \<times> error option"

definition then_emit :: "emitted \<Rightarrow> emitted \<Rightarrow> emitted" where
  "then_emit a b = (case snd a of Some e \<Rightarrow> a | None \<Rightarrow> (fst a @ fst b, snd b))"

fun define_all :: "pylib \<Rightarrow> (string \<times> pyval \<times> pyval) list \<Rightarrow> emitted" where
  "define_all lib [] = ([], None)"
| "define_all lib ((nm, c, p) # objs) = then_emit (define_object lib nm c p) (define_all lib objs)"

text \<open>The definitions of every object of a registry built by a scan pass.\<close>

definition define_known :: "pylib \<Rightarrow> registry \<Rightarrow> emitted" where
  "define_known lib known =
     define_all lib (map (\<lambda>kv. (name (snd kv), center_val (obj_hull (snd kv)), exterior_val (obj_hull (snd kv)))) known)"

definition preprocess_pipe :: "pylib \<Rightarrow> string list \<Rightarrow> emitted" where
  "preprocess_pipe lib infile = (infile, None)"

section \<open>Cura\<close>

record cura_scan_state =
  cs_known :: registry
  cs_hull :: "string option"
  cs_last_time :: "string option"

definition cura_scan_line :: "pylib \<Rightarrow> cura_scan_state \<Rightarrow> string \<Rightarrow> error + cura_scan_state" where
  "cura_scan_line lib st line =
     (let track = (\<lambda>st1.
            case track_point lib (cs_known st1) (cs_hull st1) line of
              Inl e \<Rightarrow> Inl e
            | Inr known2 \<Rightarrow>
                Inr (st1\<lparr>cs_known := known2,
                         cs_last_time := (if startswith line '';TIME_ELAPSED:'' then Some line
                                          else cs_last_time st1)\<rparr>))
      in if startswith line '';MESH:''
         then (case item1 (py_split1 '':'' line) of
                 None \<Rightarrow> Inl IndexError
               | Some f \<Rightarrow>
                   (let object_name = strip f
                    in if object_name = ''NONMESH'' then Inr st
                       else track (st\<lparr>cs_known := register (cs_known st) object_name (clean_id object_name),
                                     cs_hull := Some object_name\<rparr>)))
         else track st)"

fun cura_scan :: "pylib \<Rightarrow> cura_scan_state \<Rightarrow> string list \<Rightarrow> error + cura_scan_state" where
  "cura_scan lib st [] = Inr st"
| "cura_scan lib st (line # rest) =
     (case cura_scan_line lib st line of Inl e \<Rightarrow> Inl e | Inr st1 \<Rightarrow> cura_scan lib st1 rest)"

text \<open>
  The second loop yields lines up to and including the first line that is neither blank
  nor a comment, and leaves the rest of the file to the third loop.
\<close>

fun cura_head :: "string list \<Rightarrow> string list \<times> string list" where
  "cura_head [] = ([], [])"
| "cura_head (line # rest) =
     (if strip line \<noteq> [] \<and> \<not> startswith line '';'' then ([line], rest)
      else (line # fst (cura_head rest), snd (cura_head rest)))"

text \<open>
  In the third loop \<open>current_object\<close> is None or the sanitized name, a string; the
  conditions test its truth value, and the empty string is false.
\<close>

definition name_truthy :: "string option \<Rightarrow> bool" where
  "name_truthy current_object = (case current_object of None \<Rightarrow> False | Some nm \<Rightarrow> nm \<noteq> [])"

definition cura_close :: "string option \<Rightarrow> string list \<times> string option" where
  "cura_close current_object =
     (if name_truthy current_object then (object_end_marker (the current_object), None)
      else ([], current_object))"

definition cura_time_check :: "string option \<Rightarrow> string option \<Rightarrow> string \<Rightarrow> string list \<times> string option" where
  "cura_time_check last_time_elapsed current_object line =
     (if Some line = last_time_elapsed then cura_close current_object else ([], current_object))"

fun cura_emit :: "registry \<Rightarrow> string option \<Rightarrow> string option \<Rightarrow> string list \<Rightarrow> emitted" where
  "cura_emit known lte current_object [] = (fst (cura_close current_object), None)"
| "cura_emit known lte current_object (line # rest) =
     (if startswith line '';MESH:''
      then (case cura_close current_object of
              (ended, cur1) \<Rightarrow>
                (case item1 (py_split1 '':'' line) of
                   None \<Rightarrow> (line # ended, Some IndexError)
                 | Some f \<Rightarrow>
                     (let mesh = strip f
                      in if mesh = ''NONMESH''
                         then then_emit (line # ended, None) (cura_emit known lte cur1 rest)
                         else (case map_of known mesh of
                                 None \<Rightarrow> (line # ended, Some KeyError)
                               | Some obj \<Rightarrow>
                                   (case cura_time_check lte (Some (name obj)) line of
                                      (timed, cur2) \<Rightarrow>
                                        then_emit
                                          (line # ended @ object_start_marker (name obj) @ timed, None)
                                          (cura_emit known lte cur2 rest))))))
      else (case cura_time_check lte current_object line of
              (timed, cur2) \<Rightarrow> then_emit (line # timed, None) (cura_emit known lte cur2 rest)))"

definition preprocess_cura :: "pylib \<Rightarrow> string list \<Rightarrow> emitted" where
  "preprocess_cura lib infile =
     (case cura_scan lib \<lparr>cs_known = [], cs_hull = None, cs_last_time = None\<rparr> infile of
        Inl e \<Rightarrow> ([], Some e)
      | Inr st \<Rightarrow>
          then_emit (fst (cura_head infile), None)
            (then_emit (header (int (length (cs_known st))), None)
               (then_emit (define_known lib (cs_known st))
                  (cura_emit (cs_known st) (cs_last_time st) None (snd (cura_head infile))))))"

section \<open>SuperSlicer\<close>

text \<open>\<open>d.get(key)\<close>, None when the key is absent\<close>

definition dict_get :: "(string \<times> pyval) list \<Rightarrow> string \<Rightarrow> pyval" where
  "dict_get d key = (case map_of d key of None \<Rightarrow> PNone | Some v \<Rightarrow> v)"

text \<open>
  A \<open>; object:\<close> line: the text behind the first colon is decoded, the entry must be a
  dictionary with a string under \<open>id\<close>, the sanitized id is stored in it under
  \<open>clean_id\<close>, and the dictionary is stored in the registry under the id.
\<close>

definition superslicer_object ::
  "pylib \<Rightarrow> (string \<times> pyval) list \<Rightarrow> string \<Rightarrow> error + (string \<times> pyval) list" where
  "superslicer_object lib known line =
     (case item1 (py_split1 '':'' line) of
        None \<Rightarrow> Inl IndexError
      | Some f \<Rightarrow>
          (case json_loads lib (strip f) of
             None \<Rightarrow> Inl JSONDecodeError
           | Some (PDict object_data) \<Rightarrow>
               (case map_of object_data ''id'' of
                  None \<Rightarrow> Inl KeyError
                | Some (PStr ident) \<Rightarrow>
                    Inr (dict_set ident
                           (PDict (dict_set ''clean_id'' (PStr (clean_id ident)) object_data)) known)
                | Some v \<Rightarrow> Inl TypeError)
           | Some v \<Rightarrow> Inl TypeError))"

text \<open>\<open>[a, b, *_] = v\<close>\<close>

definition unpack2 :: "pyval \<Rightarrow> error + pyval \<times> pyval" where
  "unpack2 v =
     (case iter_items v of
        Inl e \<Rightarrow> Inl e
      | Inr (a # b # rest) \<Rightarrow> Inr (a, b)
      | Inr short \<Rightarrow> Inl ValueError)"

text \<open>
  The number that a value contributes to \<open>x - w / 2\<close>; a value that is not a number makes
  the arithmetic raise. The result of the division is a float; the arithmetic is exact
  here.
\<close>

fun number_of :: "pyval \<Rightarrow> rat option" where
  "number_of (PInt i) = Some (of_int i)"
| "number_of (PFloat f) = Some f"
| "number_of (PBool b) = Some (if b then 1 else 0)"
| "number_of v = None"

definition superslicer_polygon :: "(string \<times> pyval) list \<Rightarrow> error + pyval" where
  "superslicer_polygon object_data =
     (let boundingbox_center = dict_get object_data ''boundingbox_center'';
          boundingbox_size = dict_get object_data ''boundingbox_size''
      in if truthy boundingbox_center \<and> truthy boundingbox_size
         then (case unpack2 boundingbox_center of
                 Inl e \<Rightarrow> Inl e
               | Inr (xv, yv) \<Rightarrow>
                   (case unpack2 boundingbox_size of
                      Inl e \<Rightarrow> Inl e
                    | Inr (wv, hv) \<Rightarrow>
                        (case (number_of xv, number_of yv, number_of wv, number_of hv) of
                           (Some x, Some y, Some w, Some h) \<Rightarrow>
                             Inr (PList (map point_val
                                    (boundingbox (x - w / 2, y - h / 2) (x + w / 2, y + h / 2))))
                         | _ \<Rightarrow> Inl TypeError)))
         else Inr PNone)"

text \<open>The name under which an entry of the registry is announced.\<close>

definition clean_id_of :: "pyval \<Rightarrow> string" where
  "clean_id_of v =
     (case v of PDict d \<Rightarrow> (case dict_get d ''clean_id'' of PStr s \<Rightarrow> s | _ \<Rightarrow> []) | _ \<Rightarrow> [])"

fun superslicer_defines :: "pylib \<Rightarrow> (string \<times> pyval) list \<Rightarrow> emitted" where
  "superslicer_defines lib [] = ([], None)"
| "superslicer_defines lib ((ident, v) # objs) =
     (case v of
        PDict object_data \<Rightarrow>
          (case superslicer_polygon object_data of
             Inl e \<Rightarrow> ([], Some e)
           | Inr polygon \<Rightarrow>
               then_emit
                 (define_object lib (clean_id_of v) (dict_get object_data ''object_center'') polygon)
                 (superslicer_defines lib objs))
      | _ \<Rightarrow> ([], Some TypeError))"

text \<open>The second loop: start and end markers for the ids of the registry.\<close>

definition marker_for ::
  "(string \<times> 'v) list \<Rightarrow> ('v \<Rightarrow> string) \<Rightarrow> (string \<Rightarrow> string list) \<Rightarrow> string \<Rightarrow> emitted" where
  "marker_for known name_of marker line =
     (case item1 (py_split ''printing object'' line) of
        None \<Rightarrow> ([], Some IndexError)
      | Some f \<Rightarrow>
          (case map_of known (strip f) of
             None \<Rightarrow> ([], Some KeyError)
           | Some v \<Rightarrow> (marker (name_of v), None)))"

definition print_markers :: "(string \<times> 'v) list \<Rightarrow> ('v \<Rightarrow> string) \<Rightarrow> string \<Rightarrow> emitted" where
  "print_markers known name_of line =
     then_emit
       (if startswith line ''; printing object ''
        then marker_for known name_of object_start_marker line else ([], None))
       (if startswith line ''; stop printing object ''
        then marker_for known name_of object_end_marker line else ([], None))"

fun superslicer_tail :: "(string \<times> pyval) list \<Rightarrow> string list \<Rightarrow> emitted" where
  "superslicer_tail known [] = ([], None)"
| "superslicer_tail known (line # rest) =
     then_emit ([line], None)
       (then_emit (print_markers known clean_id_of line) (superslicer_tail known rest))"

fun superslicer_loop :: "pylib \<Rightarrow> (string \<times> pyval) list \<Rightarrow> string list \<Rightarrow> emitted" where
  "superslicer_loop lib known [] = ([], None)"
| "superslicer_loop lib known (line # rest) =
     (case (if startswith line ''; object:'' then superslicer_object lib known line
            else Inr known) of
        Inl e \<Rightarrow> ([line], Some e)
      | Inr known1 \<Rightarrow>
          then_emit ([line], None)
            (if startswith line ''; plater:''
             then then_emit (header (int (length known1)), None)
                    (then_emit (superslicer_defines lib known1) (superslicer_tail known1 rest))
             else superslicer_loop lib known1 rest))"

definition preprocess_superslicer :: "pylib \<Rightarrow> string list \<Rightarrow> emitted" where
  "preprocess_superslicer lib infile = superslicer_loop lib [] infile"

section \<open>PrusaSlicer and Slic3r\<close>

definition slicer_scan_line ::
  "pylib \<Rightarrow> registry \<times> string option \<Rightarrow> string \<Rightarrow> error + registry \<times> string option" where
  "slicer_scan_line lib st line =
     (if startswith line ''; printing object ''
      then (case item1 (py_split ''printing object'' line) of
              None \<Rightarrow> Inl IndexError
            | Some f \<Rightarrow>
                (let object_id = strip f
                 in case track_point lib (register (fst st) object_id (clean_id object_id))
                           (Some object_id) line of
                      Inl e \<Rightarrow> Inl e
                    | Inr known2 \<Rightarrow> Inr (known2, Some object_id)))
      else (case track_point lib (fst st) (snd st) line of
              Inl e \<Rightarrow> Inl e
            | Inr known2 \<Rightarrow> Inr (known2, snd st)))"

fun slicer_scan ::
  "pylib \<Rightarrow> registry \<times> string option \<Rightarrow> string list \<Rightarrow> error + registry \<times> string option" where
  "slicer_scan lib st [] = Inr st"
| "slicer_scan lib st (line # rest) =
     (case slicer_scan_line lib st line of Inl e \<Rightarrow> Inl e | Inr st1 \<Rightarrow> slicer_scan lib st1 rest)"

fun slicer_emit :: "pylib \<Rightarrow> registry \<Rightarrow> string list \<Rightarrow> emitted" where
  "slicer_emit lib known [] = ([], None)"
| "slicer_emit lib known (line # rest) =
     then_emit ([line], None)
       (then_emit
          (if startswith line ''; generated by''
           then then_emit (header (int (length known)), None) (define_known lib known)
           else ([], None))
          (then_emit (print_markers known name line) (slicer_emit lib known rest)))"

definition preprocess_slicer :: "pylib \<Rightarrow> string list \<Rightarrow> emitted" where
  "preprocess_slicer lib infile =
     (case slicer_scan lib ([], None) infile of
        Inl e \<Rightarrow> ([], Some e)
      | Inr st \<Rightarrow> slicer_emit lib (fst st) infile)"

section \<open>ideaMaker\<close>

text \<open>
  The scan pass reads the line behind a \<open>;PRINTING:\<close> line with \<open>next\<close>; at the end of
  the file that raises StopIteration inside the generator, which surfaces as a
  RuntimeError.
\<close>

fun ideamaker_scan ::
  "pylib \<Rightarrow> registry \<times> string option \<Rightarrow> string list \<Rightarrow> error + registry \<times> string option" where
  "ideamaker_scan lib st [] = Inr st"
| "ideamaker_scan lib st [line] =
     (if startswith line '';PRINTING:''
      then (case item1 (py_split '':'' line) of
              None \<Rightarrow> Inl IndexError
            | Some f \<Rightarrow> Inl RuntimeError)
      else (case track_point lib (fst st) (snd st) line of
              Inl e \<Rightarrow> Inl e
            | Inr known2 \<Rightarrow> Inr (known2, snd st)))"
| "ideamaker_scan lib st (line # id_line # rest) =
     (if startswith line '';PRINTING:''
      then (case item1 (py_split '':'' line) of
              None \<Rightarrow> Inl IndexError
            | Some f \<Rightarrow>
                (if \<not> startswith id_line '';PRINTING_ID:'' then Inl AssertionError
                 else (case item1 (py_split '':'' id_line) of
                         None \<Rightarrow> Inl IndexError
                       | Some g \<Rightarrow>
                           (let ident = strip g
                            in if ident = ''-1'' then ideamaker_scan lib st rest
                               else (case track_point lib
                                            (register (fst st) ident (clean_id (strip f)))
                                            (Some ident) line of
                                       Inl e \<Rightarrow> Inl e
                                     | Inr known2 \<Rightarrow>
                                         ideamaker_scan lib (known2, Some ident) rest)))))
      else (case track_point lib (fst st) (snd st) line of
              Inl e \<Rightarrow> Inl e
            | Inr known2 \<Rightarrow> ideamaker_scan lib (known2, snd st) (id_line # rest)))"

text \<open>
  The emission pass. \<open>current_object\<close> is None or an entry of the registry, which is
  a non-empty tuple and therefore true in a condition.
\<close>

definition ideamaker_total :: "pylib \<Rightarrow> registry \<Rightarrow> string \<Rightarrow> emitted" where
  "ideamaker_total lib known line =
     (case item1 (py_split '':'' line) of
        None \<Rightarrow> ([], Some IndexError)
      | Some f \<Rightarrow>
          (case int_of_str lib (strip f) of
             None \<Rightarrow> ([], Some ValueError)
           | Some total_num \<Rightarrow>
               (if total_num \<noteq> int (length known) then ([], Some AssertionError)
                else then_emit (header total_num, None) (define_known lib known))))"

definition ideamaker_close :: "KnownObject option \<Rightarrow> string list" where
  "ideamaker_close current_object =
     (case current_object of None \<Rightarrow> [] | Some obj \<Rightarrow> object_end_marker (name obj))"

definition ideamaker_remaining :: "KnownObject option \<Rightarrow> string \<Rightarrow> string list \<times> KnownObject option" where
  "ideamaker_remaining current_object line =
     (if line = '';REMAINING_TIME: 0'' @ nl \<and> current_object \<noteq> None
      then (ideamaker_close current_object, None)
      else ([], current_object))"

fun ideamaker_emit :: "pylib \<Rightarrow> registry \<Rightarrow> KnownObject option \<Rightarrow> string list \<Rightarrow> emitted" where
  "ideamaker_emit lib known current_object [] = (ideamaker_close current_object, None)"
| "ideamaker_emit lib known current_object (line # rest) =
     then_emit ([line], None)
       (then_emit
          (if startswith line '';TOTAL_NUM:'' then ideamaker_total lib known line else ([], None))
          (if startswith line '';PRINTING_ID:''
           then (case item1 (py_split '':'' line) of
                   None \<Rightarrow> ([], Some IndexError)
                 | Some f \<Rightarrow>
                     then_emit (ideamaker_close current_object, None)
                       (if strip f = ''-1'' then ideamaker_emit lib known None rest
                        else (case map_of known (strip f) of
                                None \<Rightarrow> ([], Some KeyError)
                              | Some obj \<Rightarrow>
                                  (case ideamaker_remaining (Some obj) line of
                                     (ended, cur2) \<Rightarrow>
                                       then_emit (object_start_marker (name obj) @ ended, None)
                                         (ideamaker_emit lib known cur2 rest)))))
           else (case ideamaker_remaining current_object line of
                   (ended, cur2) \<Rightarrow>
                     then_emit (ended, None) (ideamaker_emit lib known cur2 rest))))"

definition preprocess_ideamaker :: "pylib \<Rightarrow> string list \<Rightarrow> emitted" where
  "preprocess_ideamaker lib infile =
     (case ideamaker_scan lib ([], None) infile of
        Inl e \<Rightarrow> ([], Some e)
      | Inr st \<Rightarrow> ideamaker_emit lib (fst st) None infile)"

section \<open>Detection and the driver\<close>

type_synonym processor = "pylib \<Rightarrow> string list \<Rightarrow> emitted"

type_synonym slicers = "(string \<times> string \<times> processor) list"

definition SLICERS :: slicers where
  "SLICERS =
     [(''superslicer'', ''; generated by SuperSlicer'', preprocess_superslicer),
      (''prusaslicer'', ''; generated by PrusaSlicer'', preprocess_slicer),
      (''slic3r'', ''; generated by Slic3r'', preprocess_slicer),
      (''cura'', '';Generated with Cura_SteamEngine'', preprocess_cura),
      (''ideamaker'', '';Sliced by ideaMaker'', preprocess_ideamaker)]"

text \<open>The table is a global of the source; here it is an argument.\<close>

fun identify_slicer_marker :: "slicers \<Rightarrow> string \<Rightarrow> processor option" where
  "identify_slicer_marker [] line = None"
| "identify_slicer_marker ((nm, marker, proc) # table) line =
     (if startswith (strip line) marker then Some proc else identify_slicer_marker table line)"

datatype detection = Found processor | NonComment | Exhausted

fun detect :: "slicers \<Rightarrow> string list \<Rightarrow> detection" where
  "detect table [] = Exhausted"
| "detect table (line # rest) =
     (if strip line = [] then detect table rest
      else if \<not> startswith line '';'' then NonComment
      else (case identify_slicer_marker table line of
              Some proc \<Rightarrow> Found proc
            | None \<Rightarrow> detect table rest))"

datatype outcome = ReturnTrue | ReturnNone | Raised error

text \<open>
  \<open>preprocessor\<close> returns the text written to the output file and how the call ended.
  When the detection loop ends without a processor, the call of \<open>None\<close> raises a
  TypeError. The pieces a processor yields before it raises have been written.
\<close>

definition preprocessor :: "slicers \<Rightarrow> pylib \<Rightarrow> string \<Rightarrow> string \<times> outcome" where
  "preprocessor table lib infile =
     (if list_ex (\<lambda>line. startswith line ''DEFINE_OBJECT'') (readlines infile)
      then (infile, ReturnTrue)
      else (case detect table (readlines infile) of
              NonComment \<Rightarrow> ([], ReturnNone)
            | Exhausted \<Rightarrow> ([], Raised TypeError)
            | Found proc \<Rightarrow>
                (case proc lib (readlines infile) of
                   (pieces, None) \<Rightarrow> (concat pieces, ReturnTrue)
                 | (pieces, Some e) \<Rightarrow> (concat pieces, Raised e))))"

text \<open>
  The driver on a file system, a map from paths to the contents of the files. The input
  is opened for reading in text mode: its content is decoded and its line ends are
  translated before \<open>preprocessor\<close> reads it, and bytes that cannot be decoded make the
  first read raise, when the temporary file exists already and is still empty. The
  output is written in text mode. \<open>tmp\<close> is the path that \<open>mktemp\<close> returns and
  \<open>with_suffix\<close> the file name with the suffix put before its extension; both come from
  the library.
\<close>

type_synonym filesystem = "string \<rightharpoonup> string"

definition outfilepath_of :: "(string \<Rightarrow> string \<Rightarrow> string) \<Rightarrow> string \<Rightarrow> string option \<Rightarrow> string" where
  "outfilepath_of with_suffix filename output_suffix =
     (case output_suffix of
        None \<Rightarrow> filename
      | Some sfx \<Rightarrow> if sfx \<noteq> [] then with_suffix filename sfx else filename)"

definition process_file_for_cancellation ::
  "slicers \<Rightarrow> pylib \<Rightarrow> (string \<Rightarrow> string \<Rightarrow> string) \<Rightarrow> string \<Rightarrow> filesystem \<Rightarrow> string
     \<Rightarrow> string option \<Rightarrow> filesystem \<times> outcome" where
  "process_file_for_cancellation table lib with_suffix tmp fs filename output_suffix =
     (let outfilepath = outfilepath_of with_suffix filename output_suffix
      in case fs filename of
           None \<Rightarrow> (fs, Raised FileNotFoundError)
         | Some content \<Rightarrow>
             (case file_decode lib content of
                None \<Rightarrow> (fs(tmp \<mapsto> []), Raised UnicodeDecodeError)
              | Some decoded \<Rightarrow>
                  (case preprocessor table lib (universal_newlines decoded) of
                     (written, ReturnTrue) \<Rightarrow>
                       (if outfilepath = tmp then (fs(tmp := None), Raised FileNotFoundError)
                        else ((fs(tmp := None))(outfilepath \<mapsto> file_encode lib written),
                              ReturnTrue))
                   | (written, ReturnNone) \<Rightarrow> (fs(tmp := None), ReturnNone)
                   | (written, Raised e) \<Rightarrow> (fs(tmp \<mapsto> file_encode lib written), Raised e))))"

section \<open>A sample of the library\<close>

text \<open>
  Concrete runs need concrete library functions. This sample agrees with Python on the
  inputs the runs below give it: \<open>float\<close> and \<open>int\<close> of a string of decimal digits,
  \<open>str\<close> of a float with an integer value, the compact JSON text and the \<open>repr\<close> of
  lists of such numbers, \<open>json.loads\<close> of one object, and files of a platform whose
  line separator is the line feed, in a codec that maps every byte to the character of
  the same number. Elsewhere it is a stand-in
  (it rejects other numerals, prints other floats as a fraction and does not escape
  strings); no statement about all inputs depends on it.
\<close>

definition digits_value :: "string \<Rightarrow> nat" where
  "digits_value s = foldl (\<lambda>n c. 10 * n + (of_char c - 48)) 0 s"

definition all_digits :: "string \<Rightarrow> bool" where
  "all_digits s = (s \<noteq> [] \<and> list_all (\<lambda>c. c \<in> set ''0123456789'') s)"

definition sample_float :: "string \<Rightarrow> rat option" where
  "sample_float s = (if all_digits s then Some (of_nat (digits_value s)) else None)"

definition sample_int :: "string \<Rightarrow> int option" where
  "sample_int s = (if all_digits s then Some (int (digits_value s)) else None)"

definition sample_str_float :: "rat \<Rightarrow> string" where
  "sample_str_float r =
     (case quotient_of r of
        (n, d) \<Rightarrow> if d = 1 then str_int n @ ''.0'' else str_int n @ ''/'' @ str_int d)"

abbreviation dq :: string where
  "dq \<equiv> [CHR 0x22]"

fun sample_json :: "pyval \<Rightarrow> string" where
  "sample_json PNone = ''null''"
| "sample_json (PBool b) = (if b then ''true'' else ''false'')"
| "sample_json (PInt i) = str_int i"
| "sample_json (PFloat f) = sample_str_float f"
| "sample_json (PStr s) = dq @ s @ dq"
| "sample_json (PList xs) = ''['' @ py_join '','' (map sample_json xs) @ '']''"
| "sample_json (PDict d) =
     ''{'' @ py_join '','' (map (\<lambda>kv. dq @ fst kv @ dq @ '':'' @ sample_json (snd kv)) d) @ ''}''"

fun sample_repr :: "pyval \<Rightarrow> string" where
  "sample_repr PNone = ''None''"
| "sample_repr (PBool b) = (if b then ''True'' else ''False'')"
| "sample_repr (PInt i) = str_int i"
| "sample_repr (PFloat f) = sample_str_float f"
| "sample_repr (PStr s) = [CHR 0x27] @ s @ [CHR 0x27]"
| "sample_repr (PList xs) = ''['' @ py_join '', '' (map sample_repr xs) @ '']''"
| "sample_repr (PDict d) =
     ''{'' @ py_join '', ''
        (map (\<lambda>kv. [CHR 0x27] @ fst kv @ [CHR 0x27] @ '': '' @ sample_repr (snd kv)) d) @ ''}''"

text \<open>The metadata of the SuperSlicer scenario and what \<open>json.loads\<close> makes of it.\<close>

definition scenario_json :: string where
  "scenario_json =
     ''{'' @ dq @ ''id'' @ dq @ '':'' @ dq @ ''a'' @ dq @ '','' @ dq @ ''name'' @ dq @ '':''
       @ dq @ ''a'' @ dq @ '','' @ dq @ ''object_center'' @ dq @ '':[1,1,0]}''"

definition sample_loads :: "string \<Rightarrow> pyval option" where
  "sample_loads s =
     (if s = scenario_json
      then Some (PDict [(''id'', PStr ''a''), (''name'', PStr ''a''),
                        (''object_center'', PList [PInt 1, PInt 1, PInt 0])])
      else None)"

definition sample_lib :: pylib where
  "sample_lib =
     \<lparr>float_of_str = sample_float, int_of_str = sample_int, str_of_float = sample_str_float,
      repr_of = sample_repr, json_loads = sample_loads, json_dumps = sample_json,
      file_decode = Some, file_encode = (\<lambda>text. text)\<rparr>"

section \<open>Notions of the specification\<close>

text \<open>
  The leading block of a file, as the specification words it: the lines before the first
  line that is neither blank nor a comment. A line carries a marker when its trimmed text
  starts with the marker of some entry of the table.
\<close>

definition spec_blank_or_comment :: "string \<Rightarrow> bool" where
  "spec_blank_or_comment line = (strip line = [] \<or> startswith line '';'')"

definition spec_leading_block :: "string list \<Rightarrow> string list" where
  "spec_leading_block lines = takeWhile spec_blank_or_comment lines"

definition spec_has_marker :: "slicers \<Rightarrow> string \<Rightarrow> bool" where
  "spec_has_marker table line = list_ex (\<lambda>entry. startswith (strip line) (fst (snd entry))) table"

text \<open>A text is annotated when one of its lines begins with \<open>DEFINE_OBJECT\<close>.\<close>

definition spec_annotated :: "string \<Rightarrow> bool" where
  "spec_annotated text = list_ex (\<lambda>line. startswith line ''DEFINE_OBJECT'') (readlines text)"

section \<open>Sample files\<close>

text \<open>A PrusaSlicer file without objects, and what one and two runs make of it.\<close>

definition bare_file :: string where
  "bare_file = ''; generated by PrusaSlicer'' @ nl"

definition bare_header :: string where
  "bare_header = nl @ nl @ ''; Pre-Processed for Cancel-Object support'' @ nl
                   @ ''; 0 known objects'' @ nl"

text \<open>A PrusaSlicer file with one object, and its annotated form.\<close>

definition cube_file :: string where
  "cube_file = ''; generated by PrusaSlicer'' @ nl @ ''; printing object a'' @ nl
                 @ ''G1 X5 Y5 E1'' @ nl @ ''; stop printing object a'' @ nl"

definition cube_annotated :: string where
  "cube_annotated =
     ''; generated by PrusaSlicer'' @ nl @ nl @ nl
       @ ''; Pre-Processed for Cancel-Object support'' @ nl
       @ ''; 1 known objects'' @ nl
       @ ''DEFINE_OBJECT NAME=a CENTER=5.0,5.0 POLYGON=[[5.0,5.0],[5.0,5.0],[5.0,5.0],[5.0,5.0]]'' @ nl
       @ ''; printing object a'' @ nl
       @ ''START_CURRENT_OBJECT NAME=a'' @ nl
       @ ''G1 X5 Y5 E1'' @ nl
       @ ''; stop printing object a'' @ nl
       @ ''END_CURRENT_OBJECT NAME=a'' @ nl"

text \<open>An annotated file without any slicer signature, and a file with neither.\<close>

definition unsigned_annotated_file :: string where
  "unsigned_annotated_file = ''; a comment'' @ nl @ ''DEFINE_OBJECT NAME=a'' @ nl @ ''G28'' @ nl"

text \<open>An annotated file with the line ends of another platform, and what is read from it.\<close>

definition crlf_annotated_file :: string where
  "crlf_annotated_file =
     ''G28'' @ [CHR 0x0D, CHR 0x0A] @ ''DEFINE_OBJECT NAME=a'' @ [CHR 0x0D, CHR 0x0A]"

definition lf_annotated_file :: string where
  "lf_annotated_file = ''G28'' @ nl @ ''DEFINE_OBJECT NAME=a'' @ nl"

definition unsigned_file :: string where
  "unsigned_file = ''; a comment'' @ nl @ ''G28'' @ nl"

text \<open>The SuperSlicer scenario of the specification.\<close>

definition superslicer_scenario :: "string list" where
  "superslicer_scenario =
     [''; object: '' @ scenario_json @ nl,
      ''; plater:'' @ nl,
      ''; printing object a'' @ nl,
      ''G1 X0 Y0'' @ nl,
      ''; stop printing object a'' @ nl]"

text \<open>A Cura file whose first mesh name sanitizes to the empty string.\<close>

definition cura_unnamed_file :: string where
  "cura_unnamed_file =
     '';Generated with Cura_SteamEngine 4.8'' @ nl @ ''G28'' @ nl @ '';MESH:!!!'' @ nl
       @ ''G1 X1 Y1'' @ nl @ '';MESH:cube'' @ nl @ ''G1 X2 Y2'' @ nl"

text \<open>
  Balanced markers, as the claim words them: a start marker only while no object is open,
  an end marker only while one is open, and no object open at the end.
\<close>

fun spec_markers_balanced :: "bool \<Rightarrow> string list \<Rightarrow> bool" where
  "spec_markers_balanced opened [] = (\<not> opened)"
| "spec_markers_balanced opened (line # rest) =
     (if startswith line ''START_CURRENT_OBJECT'' then \<not> opened \<and> spec_markers_balanced True rest
      else if startswith line ''END_CURRENT_OBJECT'' then opened \<and> spec_markers_balanced False rest
      else spec_markers_balanced opened rest)"

text \<open>
  The number that a \<open>;TOTAL_NUM:\<close> line declares: the integer read from the text between
  its first and second colon. The pieces of the definition of one registered object.
\<close>

definition spec_declared_count :: "pylib \<Rightarrow> string \<Rightarrow> int option" where
  "spec_declared_count lib line =
     (case item1 (py_split '':'' line) of None \<Rightarrow> None | Some f \<Rightarrow> int_of_str lib (strip f))"

definition define_pieces :: "pylib \<Rightarrow> string \<times> KnownObject \<Rightarrow> string list" where
  "define_pieces lib kv =
     fst (define_object lib (name (snd kv)) (center_val (obj_hull (snd kv)))
            (exterior_val (obj_hull (snd kv))))"

text \<open>An ideaMaker file that declares one object and names one, and one that declares two.\<close>

definition ideamaker_file :: "string list" where
  "ideamaker_file =
     ['';Sliced by ideaMaker 4.0'' @ nl, '';TOTAL_NUM: 1'' @ nl, '';PRINTING: cube.stl'' @ nl,
      '';PRINTING_ID: 0'' @ nl, ''G1 X3 Y4 E1'' @ nl, '';REMAINING_TIME: 0'' @ nl]"

definition ideamaker_wrong_file :: "string list" where
  "ideamaker_wrong_file =
     ['';Sliced by ideaMaker 4.0'' @ nl, '';TOTAL_NUM: 2'' @ nl, '';PRINTING: cube.stl'' @ nl,
      '';PRINTING_ID: 0'' @ nl, ''G1 X3 Y4 E1'' @ nl, '';REMAINING_TIME: 0'' @ nl]"

text \<open>
  The id that a \<open>; printing object\<close> line and a \<open>; stop printing object\<close> line name.
  The window of an id, as the claim words it: open after a line that announces the id,
  shut after the matching stop line. The owner of a position, as the code has it: the id
  of the last \<open>; printing object\<close> line so far.
\<close>

definition spec_print_id :: "string \<Rightarrow> string option" where
  "spec_print_id line =
     (if startswith line ''; printing object ''
      then map_option strip (item1 (py_split ''printing object'' line)) else None)"

definition spec_stop_id :: "string \<Rightarrow> string option" where
  "spec_stop_id line =
     (if startswith line ''; stop printing object ''
      then map_option strip (item1 (py_split ''printing object'' line)) else None)"

fun spec_window_open :: "string \<Rightarrow> bool \<Rightarrow> string list \<Rightarrow> bool" where
  "spec_window_open ident opened [] = opened"
| "spec_window_open ident opened (line # rest) =
     spec_window_open ident
       (if spec_print_id line = Some ident then True
        else if spec_stop_id line = Some ident then False else opened) rest"

fun spec_owner :: "string option \<Rightarrow> string list \<Rightarrow> string option" where
  "spec_owner current [] = current"
| "spec_owner current (line # rest) =
     spec_owner (case spec_print_id line of Some ident \<Rightarrow> Some ident | None \<Rightarrow> current) rest"

text \<open>The points recorded for an id in a registry.\<close>

definition hull_points :: "registry \<Rightarrow> string \<Rightarrow> rat Point set" where
  "hull_points known ident =
     (case map_of known ident of None \<Rightarrow> {} | Some obj \<Rightarrow> set (points (obj_hull obj)))"

text \<open>An extrusion move behind the stop line of an object.\<close>

definition late_move_lines :: "string list" where
  "late_move_lines =
     [''; printing object a'' @ nl, ''; stop printing object a'' @ nl, ''G1 X5 Y5 E1'' @ nl]"

section \<open>Properties\<close>

subsection \<open>Unfolding rules for concrete runs\<close>

lemmas text_defs = strip_def strip_with_def isspace_def lower_def lower_char_def upper_char_def
  upper_chars_def lower_chars_def py_split_def py_split1_def py_words_def readlines_def
  str_int_def str_nat.simps digit_char_def is_word_def isalnum_def clean_id_def Let_def

lemmas render_defs = HEADER_MARKER_def dump_coords_def header_def define_object_def
  object_start_marker_def object_end_marker_def point_val_def center_val_def exterior_val_def
  center_def exterior_def boundingbox_def new_hull_def add_point_def then_emit_def
  define_known_def

lemmas scan_defs = register_def parse_gcode_def gcode_point_def track_point_def

lemmas sample_defs = sample_lib_def sample_float_def sample_int_def sample_str_float_def
  digits_value_def all_digits_def sample_loads_def scenario_json_def

subsection \<open>The hull\<close>

lemma Min_step: "finite S \<Longrightarrow> Min (insert (if x < a then x else a) S) = Min (insert a (insert x S))"
  for a :: "'a::linorder"
proof -
  assume fin: "finite S"
  have "(if x < a then x else a) = min a x" by (auto simp: min_def)
  moreover have "Min (insert (min a x) S) = Min (insert a (insert x S))"
  proof (cases "S = {}")
    case True
    then show ?thesis by simp
  next
    case False
    with fin show ?thesis by (simp add: min.assoc)
  qed
  ultimately show ?thesis by simp
qed

lemma Max_step: "finite S \<Longrightarrow> Max (insert (if x > a then x else a) S) = Max (insert a (insert x S))"
  for a :: "'a::linorder"
proof -
  assume fin: "finite S"
  have "(if x > a then x else a) = max a x" by (auto simp: max_def)
  moreover have "Max (insert (max a x) S) = Max (insert a (insert x S))"
  proof (cases "S = {}")
    case True
    then show ?thesis by simp
  next
    case False
    with fin show ?thesis by (simp add: max.assoc)
  qed
  ultimately show ?thesis by simp
qed

lemma exterior_loop_bounds:
  "exterior_loop (a, b, c, d) ps =
     (Min (insert a (fst ` set ps)), Max (insert b (fst ` set ps)),
      Min (insert c (snd ` set ps)), Max (insert d (snd ` set ps)))"
proof (induction ps arbitrary: a b c d)
  case Nil
  show ?case by simp
next
  case (Cons p ps)
  obtain x y where p: "p = (x, y)" by (cases p)
  have fx: "finite (fst ` set ps)" and fy: "finite (snd ` set ps)" by simp_all
  show ?case
    unfolding p
    by (simp only: exterior_loop.simps Cons.IH Min_step [OF fx] Max_step [OF fx]
        Min_step [OF fy] Max_step [OF fy] list.set image_insert fst_conv snd_conv)
qed

lemma exterior_bounding_box:
  fixes h :: "('a::linorder) HullTracker"
  assumes "points h \<noteq> []"
  shows "exterior h =
           Some [(Min (fst ` set (points h)), Min (snd ` set (points h))),
                 (Min (fst ` set (points h)), Max (snd ` set (points h))),
                 (Max (fst ` set (points h)), Max (snd ` set (points h))),
                 (Max (fst ` set (points h)), Min (snd ` set (points h)))]"
proof -
  from assms obtain p ps where ps: "points h = p # ps" by (cases "points h") auto
  show ?thesis
    by (simp add: exterior_def ps exterior_loop_bounds boundingbox_def)
qed

text \<open>
  Claim C7. For a tracker with at least one point, \<open>exterior\<close> returns the four corners
  of the axis-aligned bounding rectangle of the points, in the order (min x, min y),
  (min x, max y), (max x, max y), (max x, min y), whatever the order in which the set is
  iterated; for the points (0,0), (2,0), (0,2) it returns (0,0), (0,2), (2,2), (2,0).
  The lemma \<open>exterior_bounding_box\<close> above gives the first part for every linearly
  ordered type of coordinates, which covers all floats but NaN.
\<close>

theorem exterior_is_bounding_rectangle:
  fixes h :: "rat HullTracker"
  shows "(points h \<noteq> [] \<longrightarrow>
            exterior h =
              Some [(Min (fst ` set (points h)), Min (snd ` set (points h))),
                    (Min (fst ` set (points h)), Max (snd ` set (points h))),
                    (Max (fst ` set (points h)), Max (snd ` set (points h))),
                    (Max (fst ` set (points h)), Min (snd ` set (points h)))])
         \<and> (set (points h) = {(0, 0), (2, 0), (0, 2)} \<longrightarrow>
              exterior h = Some [(0, 0), (0, 2), (2, 2), (2, 0)])"
proof (intro conjI impI)
  assume "points h \<noteq> []"
  then show "exterior h =
              Some [(Min (fst ` set (points h)), Min (snd ` set (points h))),
                    (Min (fst ` set (points h)), Max (snd ` set (points h))),
                    (Max (fst ` set (points h)), Max (snd ` set (points h))),
                    (Max (fst ` set (points h)), Min (snd ` set (points h)))]"
    by (rule exterior_bounding_box)
next
  assume s: "set (points h) = {(0, 0), (2, 0), (0, 2)}"
  then have ne: "points h \<noteq> []" by auto
  show "exterior h = Some [(0, 0), (0, 2), (2, 2), (2, 0)]"
    by (simp add: exterior_bounding_box [OF ne] s)
qed

theorem exterior_is_bounding_rectangle_witness:
  "exterior \<lparr>points = [(2, 0), (0, 2), (0, 0 :: rat)]\<rparr> = Some [(0, 0), (0, 2), (2, 2), (2, 0)]"
  using exterior_is_bounding_rectangle [of "\<lparr>points = [(2, 0), (0, 2), (0, 0)]\<rparr>"]
  by (simp add: insert_commute)

subsection \<open>Sanitization\<close>

lemma re_sub_word_run:
  "re_sub_nonword cs = takeWhile is_word cs @ re_sub_nonword (dropWhile is_word cs)"
  by (induction cs) auto

lemma collapse_runs: "concat (map spec_collapse_run (spec_runs s)) = re_sub_nonword s"
proof (induction s rule: spec_runs.induct)
  case 1
  show ?case by simp
next
  case (2 c cs)
  show ?case
  proof (cases "is_word c")
    case True
    have a: "list_all is_word (c # takeWhile (\<lambda>d. is_word d = is_word c) cs)"
      using True by (auto simp: list_all_iff dest: set_takeWhileD)
    have b: "(\<lambda>d. is_word d = is_word c) = is_word" using True by auto
    have ih: "concat (map spec_collapse_run (spec_runs (dropWhile is_word cs)))
            = re_sub_nonword (dropWhile is_word cs)"
      using 2 by (simp add: b)
    have hd: "spec_collapse_run (c # takeWhile is_word cs) = c # takeWhile is_word cs"
      using a by (simp add: spec_collapse_run_def b)
    have "concat (map spec_collapse_run (spec_runs (c # cs)))
            = c # takeWhile is_word cs @ re_sub_nonword (dropWhile is_word cs)"
      by (simp add: b ih hd)
    also have "\<dots> = c # re_sub_nonword cs"
      using re_sub_word_run [of cs] by simp
    finally show ?thesis using True by simp
  next
    case False
    have b: "(\<lambda>d. is_word d = is_word c) = (\<lambda>d. \<not> is_word d)" using False by auto
    have ih: "concat (map spec_collapse_run (spec_runs (dropWhile (\<lambda>d. \<not> is_word d) cs)))
            = re_sub_nonword (dropWhile (\<lambda>d. \<not> is_word d) cs)"
      using 2 by (simp add: b)
    have hd: "spec_collapse_run (c # takeWhile (\<lambda>d. \<not> is_word d) cs) = ''_''"
      using False by (simp add: spec_collapse_run_def)
    show ?thesis
      using False by (simp add: b ih hd)
  qed
qed

text \<open>
  Claim C8. For every string, \<open>_clean_id\<close> replaces each maximal run of characters that
  are neither alphanumeric nor an underscore by one underscore and then removes the
  underscores at both ends; \<open>cube one!!\<close> becomes \<open>cube_one\<close> and \<open>__a__\<close> becomes
  \<open>a\<close>.
\<close>

theorem clean_id_collapses_runs:
  "clean_id s = spec_clean_id s
   \<and> clean_id ''cube one!!'' = ''cube_one''
   \<and> clean_id ''__a__'' = ''a''"
proof (intro conjI)
  show "clean_id s = spec_clean_id s"
    by (simp add: clean_id_def spec_clean_id_def collapse_runs)
  show "clean_id ''cube one!!'' = ''cube_one''"
    by (simp add: clean_id_def strip_with_def is_word_def isalnum_def)
  show "clean_id ''__a__'' = ''a''"
    by (simp add: clean_id_def strip_with_def is_word_def isalnum_def)
qed

theorem clean_id_collapses_runs_witness:
  "spec_clean_id ''_a. b_'' = ''a_b''"
proof -
  have "clean_id ''_a. b_'' = spec_clean_id ''_a. b_''"
    using clean_id_collapses_runs [of "''_a. b_''"] by simp
  moreover have "clean_id ''_a. b_'' = ''a_b''"
    by (simp add: clean_id_def strip_with_def is_word_def isalnum_def)
  ultimately show ?thesis by simp
qed

text \<open>
  Claim C9. A tracker without points has no centre and no exterior (both calls return
  None and raise nothing), and the definition rendered from these two values is the one
  line \<open>DEFINE_OBJECT NAME=\<close> followed by the name, with neither a CENTER nor a POLYGON
  field.
\<close>

theorem empty_hull_defines_name_only:
  "center (new_hull :: rat HullTracker) = None
   \<and> exterior (new_hull :: rat HullTracker) = None
   \<and> center_val new_hull = PNone
   \<and> exterior_val new_hull = PNone
   \<and> define_object lib nm (center_val new_hull) (exterior_val new_hull)
       = ([''DEFINE_OBJECT NAME='' @ nm, nl], None)"
  by (simp add: center_def exterior_def new_hull_def center_val_def exterior_val_def
      define_object_def)

lemmas parser_defs = preprocess_slicer_def slicer_scan_line_def print_markers_def marker_for_def
  preprocess_cura_def cura_scan_line_def name_truthy_def cura_close_def cura_time_check_def
  preprocess_ideamaker_def ideamaker_total_def ideamaker_close_def ideamaker_remaining_def
  preprocess_superslicer_def superslicer_object_def superslicer_polygon_def unpack2_def
  clean_id_of_def dict_get_def preprocess_pipe_def

lemmas driver_defs = SLICERS_def preprocessor_def process_file_for_cancellation_def
  spec_blank_or_comment_def spec_leading_block_def spec_has_marker_def spec_annotated_def

subsection \<open>Detection and the driver\<close>

lemma startswith_iff: "startswith s p \<longleftrightarrow> (\<exists>r. s = p @ r)"
  by (induction s p rule: startswith.induct) auto

lemma concat_readlines_aux: "concat (readlines_aux acc s) = acc @ s"
  by (induction s arbitrary: acc) auto

lemma concat_readlines: "concat (readlines s) = s"
  by (simp add: readlines_def concat_readlines_aux)

lemma identify_none: 
  "identify_slicer_marker table line = None \<longleftrightarrow> \<not> spec_has_marker table line"
  by (induction table line rule: identify_slicer_marker.induct)
     (simp_all add: spec_has_marker_def)

lemma detect_without_marker:
  "\<forall>l \<in> set (spec_leading_block lines). \<not> spec_has_marker table l \<Longrightarrow>
   detect table lines = (if list_all spec_blank_or_comment lines then Exhausted else NonComment)"
proof (induction lines)
  case Nil
  show ?case by simp
next
  case (Cons line rest)
  show ?case
  proof (cases "spec_blank_or_comment line")
    case False
    then show ?thesis by (simp add: spec_blank_or_comment_def)
  next
    case True
    with Cons.prems have nm: "identify_slicer_marker table line = None"
      and rest: "\<forall>l \<in> set (spec_leading_block rest). \<not> spec_has_marker table l"
      by (simp_all add: spec_leading_block_def identify_none)
    from Cons.IH [OF rest] True nm show ?thesis
      by (auto simp: spec_blank_or_comment_def)
  qed
qed

lemma universal_newlines_without_cr:
  "CHR 0x0D \<notin> set s \<Longrightarrow> universal_newlines s = s"
  by (induction s rule: universal_newlines.induct) auto

text \<open>
  Claim C1 as stated fails for the files that the driver hands to the preprocessor: an
  annotated file with carriage returns at its line ends is reported as a success, but
  what is committed has line feeds only and is not the input byte by byte.
\<close>

theorem crlf_file_is_rewritten:
  "process_file_for_cancellation SLICERS sample_lib (\<lambda>f s. f @ s) ''tmp''
      [''job.gcode'' \<mapsto> crlf_annotated_file] ''job.gcode'' None
     = ([''job.gcode'' \<mapsto> lf_annotated_file], ReturnTrue)
   \<and> lf_annotated_file \<noteq> crlf_annotated_file"
  by (simp add: crlf_annotated_file_def lf_annotated_file_def driver_defs outfilepath_of_def
      sample_defs readlines_def)

text \<open>
  Claim C1, amended. When some line of the text that is read begins with
  \<open>DEFINE_OBJECT\<close>, the preprocessor writes that text unchanged and returns True. This
  holds for every table of slicers and every library: neither detection nor a dialect
  parser has a part in it. For a file of the driver the text that is read is the decoded
  content with its line ends translated to line feeds, and the driver commits the
  encoding of that text; the committed file is the input byte by byte when the content
  holds no carriage return and encoding gives back the content that was decoded.
\<close>

theorem annotated_file_is_copied:
  assumes "line \<in> set (readlines infile)" and "startswith line ''DEFINE_OBJECT''"
  shows "preprocessor table lib infile = (infile, ReturnTrue)
         \<and> (fs filename = Some content \<and> file_decode lib content = Some decoded
              \<and> universal_newlines decoded = infile
              \<and> outfilepath_of with_suffix filename sfx \<noteq> tmp \<longrightarrow>
             process_file_for_cancellation table lib with_suffix tmp fs filename sfx
               = ((fs(tmp := None))(outfilepath_of with_suffix filename sfx
                                      \<mapsto> file_encode lib infile), ReturnTrue))
         \<and> (fs filename = Some content \<and> file_decode lib content = Some infile
              \<and> CHR 0x0D \<notin> set infile \<and> file_encode lib infile = content
              \<and> outfilepath_of with_suffix filename sfx \<noteq> tmp \<longrightarrow>
             process_file_for_cancellation table lib with_suffix tmp fs filename sfx
               = ((fs(tmp := None))(outfilepath_of with_suffix filename sfx \<mapsto> content),
                  ReturnTrue))"
proof -
  have pre: "preprocessor table lib infile = (infile, ReturnTrue)"
    using assms by (auto simp: preprocessor_def list_ex_iff)
  show ?thesis
    by (auto simp: pre process_file_for_cancellation_def Let_def universal_newlines_without_cr)
qed

theorem annotated_file_is_copied_witness:
  "preprocessor [] sample_lib lf_annotated_file = (lf_annotated_file, ReturnTrue)
   \<and> process_file_for_cancellation [] sample_lib (\<lambda>f s. f @ s) ''tmp''
        [''job.gcode'' \<mapsto> lf_annotated_file] ''job.gcode'' None
       = ([''job.gcode'' \<mapsto> lf_annotated_file], ReturnTrue)"
proof -
  have a: "''DEFINE_OBJECT NAME=a'' @ nl \<in> set (readlines lf_annotated_file)"
    by (simp add: lf_annotated_file_def readlines_def)
  have b: "startswith (''DEFINE_OBJECT NAME=a'' @ nl) ''DEFINE_OBJECT''" by simp
  have c: "CHR 0x0D \<notin> set lf_annotated_file" by (simp add: lf_annotated_file_def)
  from annotated_file_is_copied [OF a b, of "[]" sample_lib
      "[''job.gcode'' \<mapsto> lf_annotated_file]" "''job.gcode''" lf_annotated_file
      lf_annotated_file "\<lambda>f s. f @ s" None "''tmp''"] c
  show ?thesis by (simp add: sample_lib_def outfilepath_of_def)
qed

lemma bare_once: "preprocessor SLICERS sample_lib bare_file = (bare_file @ bare_header, ReturnTrue)"
  by (simp add: bare_file_def bare_header_def driver_defs parser_defs text_defs render_defs
      scan_defs sample_defs)

lemma bare_twice:
  "preprocessor SLICERS sample_lib (bare_file @ bare_header)
     = (bare_file @ bare_header @ bare_header, ReturnTrue)"
  by (simp add: bare_file_def bare_header_def driver_defs parser_defs text_defs render_defs
      scan_defs sample_defs)

text \<open>
  Claim C2 as stated fails: a PrusaSlicer file without objects is processed with success,
  the result holds no \<open>DEFINE_OBJECT\<close> line, and a second run adds a second header.
\<close>

theorem second_run_adds_header:
  "preprocessor SLICERS sample_lib bare_file = (bare_file @ bare_header, ReturnTrue)
   \<and> preprocessor SLICERS sample_lib (bare_file @ bare_header)
       = (bare_file @ bare_header @ bare_header, ReturnTrue)
   \<and> bare_file @ bare_header @ bare_header \<noteq> bare_file @ bare_header"
  by (simp add: bare_once bare_twice) (simp add: bare_header_def)

text \<open>
  Claim C2, amended. When the preprocessor succeeds with an output that has a line
  beginning with \<open>DEFINE_OBJECT\<close>, a second run on that output succeeds and returns it
  unchanged.
\<close>

theorem reprocessing_annotated_output:
  assumes "preprocessor table lib infile = (out, ReturnTrue)" and "spec_annotated out"
  shows "preprocessor table lib out = (out, ReturnTrue)"
  using assms(2) by (simp add: preprocessor_def spec_annotated_def)

lemma cube_once: "preprocessor SLICERS sample_lib cube_file = (cube_annotated, ReturnTrue)"
  by (simp add: cube_file_def cube_annotated_def driver_defs parser_defs text_defs render_defs
      scan_defs sample_defs)

lemma cube_is_annotated: "spec_annotated cube_annotated"
  by (simp add: cube_annotated_def spec_annotated_def readlines_def)

theorem reprocessing_annotated_output_witness:
  "preprocessor SLICERS sample_lib cube_annotated = (cube_annotated, ReturnTrue)"
  by (rule reprocessing_annotated_output [OF cube_once cube_is_annotated])

text \<open>
  Claim C5 as stated fails: a file without any slicer signature in its leading block
  that holds a \<open>DEFINE_OBJECT\<close> line is copied, reported as a success and committed by
  the driver.
\<close>

theorem unsigned_annotated_file_succeeds:
  "\<not> list_ex (spec_has_marker SLICERS) (spec_leading_block (readlines unsigned_annotated_file))
   \<and> preprocessor SLICERS sample_lib unsigned_annotated_file
       = (unsigned_annotated_file, ReturnTrue)
   \<and> process_file_for_cancellation SLICERS sample_lib (\<lambda>f s. f @ s) ''tmp''
        [''job.gcode'' \<mapsto> unsigned_annotated_file] ''job.gcode'' (Some ''_out'')
       = ([''job.gcode'' \<mapsto> unsigned_annotated_file,
           ''job.gcode_out'' \<mapsto> unsigned_annotated_file], ReturnTrue)"
  by (simp add: unsigned_annotated_file_def driver_defs outfilepath_of_def text_defs
      sample_defs)

text \<open>
  Claim C5, amended. Take a file whose text, as it is read, has no line that begins with
  \<open>DEFINE_OBJECT\<close>, has a line that is neither blank nor a comment, and has no line in
  the block of blank and comment lines before that line which starts, after trimming,
  with one of the five markers. Then the preprocessor writes nothing and returns None,
  and the driver removes its temporary file, commits no output file and returns None:
  the file system is left as it was.
\<close>

theorem no_marker_no_output:
  assumes "fs filename = Some content" and "file_decode lib content = Some decoded"
    and "infile = universal_newlines decoded"
    and "\<not> spec_annotated infile"
    and "\<not> list_all spec_blank_or_comment (readlines infile)"
    and "\<forall>l \<in> set (spec_leading_block (readlines infile)). \<not> spec_has_marker SLICERS l"
    and "fs tmp = None"
  shows "preprocessor SLICERS lib infile = ([], ReturnNone)
         \<and> process_file_for_cancellation SLICERS lib with_suffix tmp fs filename sfx
             = (fs, ReturnNone)"
proof -
  have pre: "preprocessor SLICERS lib (universal_newlines decoded) = ([], ReturnNone)"
    using assms(4,5) detect_without_marker [OF assms(6)]
    by (simp add: preprocessor_def spec_annotated_def assms(3))
  have same: "fs(tmp := None) = fs"
    using assms(7) by (simp add: fun_upd_idem_iff)
  show ?thesis
    using assms(1,2) by (simp add: pre same assms(3) process_file_for_cancellation_def Let_def)
qed

theorem no_marker_no_output_witness:
  "preprocessor SLICERS sample_lib unsigned_file = ([], ReturnNone)
   \<and> process_file_for_cancellation SLICERS sample_lib (\<lambda>f s. f @ s) ''tmp''
        [''job.gcode'' \<mapsto> unsigned_file] ''job.gcode'' None
       = ([''job.gcode'' \<mapsto> unsigned_file], ReturnNone)"
proof -
  have f: "[''job.gcode'' \<mapsto> unsigned_file] ''job.gcode'' = Some unsigned_file" by simp
  have d: "file_decode sample_lib unsigned_file = Some unsigned_file"
    by (simp add: sample_lib_def)
  have u: "unsigned_file = universal_newlines unsigned_file"
    by (simp add: unsigned_file_def)
  have a: "\<not> spec_annotated unsigned_file"
    by (simp add: unsigned_file_def spec_annotated_def readlines_def)
  have c: "\<not> list_all spec_blank_or_comment (readlines unsigned_file)"
    by (simp add: unsigned_file_def driver_defs text_defs)
  have b: "\<forall>l \<in> set (spec_leading_block (readlines unsigned_file)). \<not> spec_has_marker SLICERS l"
    by (simp add: unsigned_file_def driver_defs text_defs)
  have t: "[''job.gcode'' \<mapsto> unsigned_file] ''tmp'' = None" by simp
  show ?thesis
    by (rule no_marker_no_output [OF f d u a c b t])
qed

subsection \<open>Concrete runs of two dialects\<close>

text \<open>
  Claim C4. On the SuperSlicer scenario the output holds a definition line, then the
  start marker, then the end marker of object \<open>a\<close>. The definition line that the code
  writes is \<open>DEFINE_OBJECT NAME=a CENTER=1,1,0\<close>: the whole \<open>object_center\<close> of the
  metadata is printed, with its third coordinate. The line
  \<open>DEFINE_OBJECT NAME=a CENTER=1,1\<close> of the claim is not in the output.
\<close>

theorem superslicer_scenario_output:
  "preprocess_superslicer sample_lib superslicer_scenario =
     ([''; object: '' @ scenario_json @ nl,
       ''; plater:'' @ nl,
       nl @ nl,
       ''; Pre-Processed for Cancel-Object support'' @ nl,
       ''; 1 known objects'' @ nl,
       ''DEFINE_OBJECT NAME=a'', '' CENTER=1,1,0'', nl,
       ''; printing object a'' @ nl,
       ''START_CURRENT_OBJECT NAME=a'' @ nl,
       ''G1 X0 Y0'' @ nl,
       ''; stop printing object a'' @ nl,
       ''END_CURRENT_OBJECT NAME=a'' @ nl], None)
   \<and> ''DEFINE_OBJECT NAME=a CENTER=1,1,0'' @ nl
        \<in> set (readlines (concat (fst (preprocess_superslicer sample_lib superslicer_scenario))))
   \<and> ''DEFINE_OBJECT NAME=a CENTER=1,1'' @ nl
        \<notin> set (readlines (concat (fst (preprocess_superslicer sample_lib superslicer_scenario))))"
  by (simp add: superslicer_scenario_def parser_defs text_defs render_defs sample_defs)

text \<open>
  Claim C10. In a Cura file whose mesh name sanitizes to the empty string the emission
  pass does not close that object: the conditions test the truth value of the name, and
  the empty name is false. The next start marker follows without an end marker between
  them, and the output is not balanced.
\<close>

theorem cura_unnamed_object_stays_open:
  "preprocessor SLICERS sample_lib cura_unnamed_file =
     ('';Generated with Cura_SteamEngine 4.8'' @ nl @ ''G28'' @ nl
        @ nl @ nl @ ''; Pre-Processed for Cancel-Object support'' @ nl
        @ ''; 2 known objects'' @ nl
        @ ''DEFINE_OBJECT NAME='' @ nl
        @ ''DEFINE_OBJECT NAME=cube'' @ nl
        @ '';MESH:!!!'' @ nl
        @ ''START_CURRENT_OBJECT NAME='' @ nl
        @ ''G1 X1 Y1'' @ nl
        @ '';MESH:cube'' @ nl
        @ ''START_CURRENT_OBJECT NAME=cube'' @ nl
        @ ''G1 X2 Y2'' @ nl
        @ ''END_CURRENT_OBJECT NAME=cube'' @ nl, ReturnTrue)
   \<and> \<not> spec_markers_balanced False
         (readlines (fst (preprocessor SLICERS sample_lib cura_unnamed_file)))"
  by (simp add: cura_unnamed_file_def driver_defs parser_defs text_defs render_defs scan_defs
      sample_defs)

subsection \<open>The ideaMaker emission pass\<close>

lemma define_object_hull:
  "snd (define_object lib nm (center_val h) (exterior_val h)) = None"
  by (cases "center h")
     (simp_all add: define_object_def center_val_def point_val_def dump_coords_def Let_def)

lemma define_known_pieces:
  "define_known lib known = (concat (map (define_pieces lib) known), None)"
proof -
  have "define_all lib (map (\<lambda>kv. (name (snd kv), center_val (obj_hull (snd kv)),
                                    exterior_val (obj_hull (snd kv)))) known)
          = (concat (map (define_pieces lib) known), None)"
  proof (induction known)
    case Nil
    show ?case by simp
  next
    case (Cons kv known)
    show ?case
      using define_object_hull [of lib "name (snd kv)" "obj_hull (snd kv)"]
      by (simp add: Cons.IH then_emit_def define_pieces_def)
  qed
  then show ?thesis by (simp add: define_known_def)
qed

lemma total_line_is_no_other:
  assumes "startswith line '';TOTAL_NUM:''"
  shows "\<not> startswith line '';PRINTING_ID:''" and "line \<noteq> '';REMAINING_TIME: 0'' @ nl"
  using assms by (auto simp: startswith_iff)

lemma then_emit_assoc: "then_emit (then_emit a b) c = then_emit a (then_emit b c)"
  by (cases a; cases b; cases c) (auto simp: then_emit_def split: option.splits)

lemma then_emit_pieces: "then_emit (ps, None) (qs, e) = (ps @ qs, e)"
  by (simp add: then_emit_def)

lemma then_emit_raised: "then_emit (ps, Some e) b = (ps, Some e)"
  by (simp add: then_emit_def)

lemma then_emit_nothing: "then_emit ([], None) b = b"
  by (simp add: then_emit_def)

lemma snd_then_emit: "snd b \<noteq> None \<Longrightarrow> snd (then_emit a b) \<noteq> None"
  by (cases a; cases b) (auto simp: then_emit_def split: option.splits)


lemma then_emit_join:
  "then_emit (ps, None) (then_emit (qs, None) b) = then_emit (ps @ qs, None) b"
  by (cases b) (simp add: then_emit_def)

lemma snd_then_emit_pieces: "snd (then_emit (ps, None) b) = snd b"
  by (cases b) (simp add: then_emit_def)

lemma ideamaker_emit_step:
  "(\<exists>ps cur'. \<forall>rest. ideamaker_emit lib known cur (line # rest)
                        = then_emit (ps, None) (ideamaker_emit lib known cur' rest))
   \<or> (\<forall>rest. snd (ideamaker_emit lib known cur (line # rest)) \<noteq> None)"
proof -
  obtain tp te where t: "(if startswith line '';TOTAL_NUM:'' then ideamaker_total lib known line
                          else ([], None)) = (tp, te)"
    by (cases "if startswith line '';TOTAL_NUM:'' then ideamaker_total lib known line
               else ([], None)") auto
  show ?thesis
  proof (cases te)
    case (Some e)
    have "\<forall>rest. snd (ideamaker_emit lib known cur (line # rest)) \<noteq> None"
      using t Some
      by (simp only: ideamaker_emit.simps then_emit_raised snd_then_emit_pieces) simp
    then show ?thesis by blast
  next
    case None
    note te = None
    show ?thesis
    proof (cases "startswith line '';PRINTING_ID:''")
      case False
      obtain ended cur2 where r: "ideamaker_remaining cur line = (ended, cur2)"
        by (cases "ideamaker_remaining cur line") auto
      have "\<forall>rest. ideamaker_emit lib known cur (line # rest)
                     = then_emit (line # tp @ ended, None) (ideamaker_emit lib known cur2 rest)"
        using t te False r
        by (simp only: ideamaker_emit.simps if_False prod.case then_emit_join) simp
      then show ?thesis by blast
    next
      case True
      note pid = True
      show ?thesis
      proof (cases "item1 (py_split '':'' line)")
        case None
        have "\<forall>rest. snd (ideamaker_emit lib known cur (line # rest)) \<noteq> None"
          using t te pid None
          by (simp only: ideamaker_emit.simps if_True option.case snd_then_emit_pieces) simp
        then show ?thesis by blast
      next
        case (Some f)
        note f = Some
        show ?thesis
        proof (cases "strip f = ''-1''")
          case True
          have "\<forall>rest. ideamaker_emit lib known cur (line # rest)
                     = then_emit (line # tp @ ideamaker_close cur, None)
                         (ideamaker_emit lib known None rest)"
            using t te pid f True
            by (simp only: ideamaker_emit.simps if_True option.case then_emit_join) simp
          then show ?thesis by blast
        next
          case False
          note nf = False
          show ?thesis
          proof (cases "map_of known (strip f)")
            case None
            have "\<forall>rest. snd (ideamaker_emit lib known cur (line # rest)) \<noteq> None"
              using t te pid f nf None
              by (simp only: ideamaker_emit.simps if_True if_False option.case
                  snd_then_emit_pieces) simp
            then show ?thesis by blast
          next
            case (Some obj)
            obtain ended cur2 where r: "ideamaker_remaining (Some obj) line = (ended, cur2)"
              by (cases "ideamaker_remaining (Some obj) line") auto
            have "\<forall>rest. ideamaker_emit lib known cur (line # rest)
                     = then_emit (line # tp @ ideamaker_close cur @ object_start_marker (name obj) @ ended, None)
                         (ideamaker_emit lib known cur2 rest)"
              using t te pid f nf Some r
              by (simp only: ideamaker_emit.simps if_True if_False option.case prod.case
                  then_emit_join) simp
            then show ?thesis by blast
          qed
        qed
      qed
    qed
  qed
qed

lemma ideamaker_emit_prefix:
  "(\<exists>ps cur'. \<forall>ls. ideamaker_emit lib known cur (pre @ ls)
                      = then_emit (ps, None) (ideamaker_emit lib known cur' ls))
   \<or> (\<forall>ls. snd (ideamaker_emit lib known cur (pre @ ls)) \<noteq> None)"
proof (induction pre arbitrary: cur)
  case Nil
  have "\<forall>ls. ideamaker_emit lib known cur ([] @ ls)
               = then_emit ([], None) (ideamaker_emit lib known cur ls)"
    by (simp add: then_emit_nothing)
  then show ?case by blast
next
  case (Cons line pre)
  from ideamaker_emit_step [of lib known cur line] show ?case
  proof
    assume "\<forall>rest. snd (ideamaker_emit lib known cur (line # rest)) \<noteq> None"
    then have "\<forall>ls. snd (ideamaker_emit lib known cur ((line # pre) @ ls)) \<noteq> None"
      by (simp only: append_Cons) blast
    then show ?thesis by blast
  next
    assume "\<exists>ps cur'. \<forall>rest. ideamaker_emit lib known cur (line # rest)
                        = then_emit (ps, None) (ideamaker_emit lib known cur' rest)"
    then obtain ps cur' where step: "\<And>rest. ideamaker_emit lib known cur (line # rest)
                        = then_emit (ps, None) (ideamaker_emit lib known cur' rest)"
      by blast
    from Cons.IH [of cur'] show ?thesis
    proof
      assume "\<forall>ls. snd (ideamaker_emit lib known cur' (pre @ ls)) \<noteq> None"
      then have "\<forall>ls. snd (ideamaker_emit lib known cur ((line # pre) @ ls)) \<noteq> None"
        by (simp only: append_Cons step snd_then_emit_pieces) simp
      then show ?thesis by blast
    next
      assume "\<exists>qs cur''. \<forall>ls. ideamaker_emit lib known cur' (pre @ ls)
                      = then_emit (qs, None) (ideamaker_emit lib known cur'' ls)"
      then obtain qs cur'' where "\<And>ls. ideamaker_emit lib known cur' (pre @ ls)
                      = then_emit (qs, None) (ideamaker_emit lib known cur'' ls)"
        by blast
      then have "\<forall>ls. ideamaker_emit lib known cur ((line # pre) @ ls)
                      = then_emit (ps @ qs, None) (ideamaker_emit lib known cur'' ls)"
        by (simp only: append_Cons step then_emit_join) simp
      then show ?thesis by blast
    qed
  qed
qed


lemma ideamaker_total_declared:
  assumes "spec_declared_count lib line = Some n"
  shows "ideamaker_total lib known line =
           (if n = int (length known) then (header n @ concat (map (define_pieces lib) known), None)
            else ([], Some AssertionError))"
  using assms
  by (auto simp: spec_declared_count_def ideamaker_total_def define_known_pieces then_emit_def
      split: option.splits)

lemma ideamaker_emit_total_line:
  assumes "startswith line '';TOTAL_NUM:''"
  shows "ideamaker_emit lib known cur (line # rest) =
           then_emit ([line], None)
             (then_emit (ideamaker_total lib known line) (ideamaker_emit lib known cur rest))"
proof -
  have "ideamaker_remaining cur line = ([], cur)"
    using total_line_is_no_other(2) [OF assms] by (simp add: ideamaker_remaining_def)
  then show ?thesis
    using assms total_line_is_no_other(1) [OF assms]
    by (simp add: then_emit_nothing)
qed

text \<open>
  Claim C6. In the ideaMaker emission pass, at a line \<open>;TOTAL_NUM:n\<close>, whatever object is
  open and whatever follows: when \<open>n\<close> is the number of registered objects, the header and
  then the definition of every registered object, in the order of the registry, come
  right behind the line, and the pass goes on with the next line; when \<open>n\<close> differs, the
  pass raises an AssertionError at this line, so that a run over a file with such a line
  ends with an exception wherever the line stands, and so does the processing of a file
  whose scanned registry has another size than the line declares.
\<close>

theorem total_num_header_or_failure:
  assumes "startswith line '';TOTAL_NUM:''" and "spec_declared_count lib line = Some n"
  shows "(n = int (length known) \<longrightarrow>
            ideamaker_emit lib known cur (line # rest)
              = then_emit (line # header n @ concat (map (define_pieces lib) known), None)
                  (ideamaker_emit lib known cur rest))
         \<and> (n \<noteq> int (length known) \<longrightarrow>
              ideamaker_emit lib known cur (line # rest) = ([line], Some AssertionError)
              \<and> snd (ideamaker_emit lib known None (pre @ line # rest)) \<noteq> None)
         \<and> ((\<forall>st. ideamaker_scan lib ([], None) (pre @ line # rest) = Inr st
                    \<longrightarrow> n \<noteq> int (length (fst st)))
              \<longrightarrow> snd (preprocess_ideamaker lib (pre @ line # rest)) \<noteq> None)"
proof -
  have here: "n \<noteq> int (length K) \<Longrightarrow>
                ideamaker_emit lib K c (line # rest) = ([line], Some AssertionError)" for K c
    by (simp only: ideamaker_emit_total_line [OF assms(1)]
        ideamaker_total_declared [OF assms(2)] if_False then_emit_raised then_emit_pieces)
       (simp add: then_emit_def)
  have anywhere: "n \<noteq> int (length K) \<Longrightarrow>
                snd (ideamaker_emit lib K c (pre @ line # rest)) \<noteq> None" for K c
  proof -
    assume ne: "n \<noteq> int (length K)"
    from ideamaker_emit_prefix [of lib K c pre] show ?thesis
    proof
      assume "\<forall>ls. snd (ideamaker_emit lib K c (pre @ ls)) \<noteq> None"
      then show ?thesis by blast
    next
      assume "\<exists>ps cur'. \<forall>ls. ideamaker_emit lib K c (pre @ ls)
                      = then_emit (ps, None) (ideamaker_emit lib K cur' ls)"
      then obtain ps cur' where "ideamaker_emit lib K c (pre @ line # rest)
                      = then_emit (ps, None) (ideamaker_emit lib K cur' (line # rest))"
        by blast
      then show ?thesis
        by (simp only: here [OF ne] snd_then_emit_pieces) simp
    qed
  qed
  have match: "n = int (length known) \<longrightarrow>
            ideamaker_emit lib known cur (line # rest)
              = then_emit (line # header n @ concat (map (define_pieces lib) known), None)
                  (ideamaker_emit lib known cur rest)"
    by (simp add: ideamaker_emit_total_line [OF assms(1)]
        ideamaker_total_declared [OF assms(2)] then_emit_join del: ideamaker_emit.simps)
  have whole: "(\<forall>st. ideamaker_scan lib ([], None) (pre @ line # rest) = Inr st
                    \<longrightarrow> n \<noteq> int (length (fst st)))
              \<longrightarrow> snd (preprocess_ideamaker lib (pre @ line # rest)) \<noteq> None"
  proof
    assume a: "\<forall>st. ideamaker_scan lib ([], None) (pre @ line # rest) = Inr st
                    \<longrightarrow> n \<noteq> int (length (fst st))"
    show "snd (preprocess_ideamaker lib (pre @ line # rest)) \<noteq> None"
    proof (cases "ideamaker_scan lib ([], None) (pre @ line # rest)")
      case (Inl e)
      then show ?thesis by (simp add: preprocess_ideamaker_def)
    next
      case (Inr st)
      with a have "n \<noteq> int (length (fst st))" by blast
      from anywhere [OF this, of None] Inr show ?thesis
        by (simp add: preprocess_ideamaker_def)
    qed
  qed
  from match here anywhere whole show ?thesis by blast
qed

lemma ideamaker_file_scan:
  "ideamaker_scan sample_lib ([], None) ideamaker_wrong_file
     = Inr ([(''0'', \<lparr>name = ''cube_stl'', obj_hull = \<lparr>points = [(3, 4)]\<rparr>\<rparr>)], Some ''0'')"
  by (simp add: ideamaker_wrong_file_def text_defs scan_defs sample_defs render_defs)

theorem total_num_header_or_failure_witness:
  "ideamaker_emit sample_lib [(''0'', \<lparr>name = ''cube_stl'', obj_hull = \<lparr>points = [(3, 4)]\<rparr>\<rparr>)]
      None ['';TOTAL_NUM: 1'' @ nl]
     = (['';TOTAL_NUM: 1'' @ nl, nl @ nl, ''; Pre-Processed for Cancel-Object support'' @ nl,
        ''; 1 known objects'' @ nl, ''DEFINE_OBJECT NAME=cube_stl'', '' CENTER=3.0,4.0'',
        '' POLYGON=[[3.0,4.0],[3.0,4.0],[3.0,4.0],[3.0,4.0]]'', nl], None)
   \<and> snd (preprocess_ideamaker sample_lib ideamaker_wrong_file) \<noteq> None"
proof -
  have s1: "startswith ('';TOTAL_NUM: 1'' @ nl) '';TOTAL_NUM:''" by simp
  have d1: "spec_declared_count sample_lib ('';TOTAL_NUM: 1'' @ nl) = Some 1"
    by (simp add: spec_declared_count_def text_defs sample_defs)
  have s2: "startswith ('';TOTAL_NUM: 2'' @ nl) '';TOTAL_NUM:''" by simp
  have d2: "spec_declared_count sample_lib ('';TOTAL_NUM: 2'' @ nl) = Some 2"
    by (simp add: spec_declared_count_def text_defs sample_defs)
  have good: "ideamaker_emit sample_lib [(''0'', \<lparr>name = ''cube_stl'', obj_hull = \<lparr>points = [(3, 4)]\<rparr>\<rparr>)]
      None ['';TOTAL_NUM: 1'' @ nl]
     = (['';TOTAL_NUM: 1'' @ nl, nl @ nl, ''; Pre-Processed for Cancel-Object support'' @ nl,
        ''; 1 known objects'' @ nl, ''DEFINE_OBJECT NAME=cube_stl'', '' CENTER=3.0,4.0'',
        '' POLYGON=[[3.0,4.0],[3.0,4.0],[3.0,4.0],[3.0,4.0]]'', nl], None)"
    using total_num_header_or_failure [OF s1 d1,
        of "[(''0'', \<lparr>name = ''cube_stl'', obj_hull = \<lparr>points = [(3, 4)]\<rparr>\<rparr>)]" None "[]" "[]"]
    by (simp add: define_pieces_def ideamaker_close_def text_defs render_defs sample_defs)
  have bad: "snd (preprocess_ideamaker sample_lib ideamaker_wrong_file) \<noteq> None"
    using total_num_header_or_failure [OF s2 d2, of "[]" None
        "['';PRINTING: cube.stl'' @ nl, '';PRINTING_ID: 0'' @ nl, ''G1 X3 Y4 E1'' @ nl,
          '';REMAINING_TIME: 0'' @ nl]" "['';Sliced by ideaMaker 4.0'' @ nl]"]
      ideamaker_file_scan
    by (simp add: ideamaker_wrong_file_def)
  from good bad show ?thesis by simp
qed

subsection \<open>The scan pass of PrusaSlicer and Slic3r\<close>

lemma hull_points_register:
  "hull_points (register known key nm) ident = hull_points known ident"
  by (auto simp: hull_points_def register_def new_hull_def map_add_def split: option.splits if_splits)

lemma map_of_add_point_to:
  "map_of (add_point_to known key p) ident =
     (if ident = key then map_option (\<lambda>obj. obj\<lparr>obj_hull := add_point p (obj_hull obj)\<rparr>) (map_of known key)
      else map_of known ident)"
  by (induction known) auto

lemma set_add_point: "set (points (add_point p h)) = insert p (set (points h))"
  by (auto simp: add_point_def)

lemma hull_points_add_point_to:
  "hull_points (add_point_to known key p) ident =
     (if ident = key \<and> map_of known key \<noteq> None then insert p (hull_points known ident)
      else hull_points known ident)"
  by (auto simp: hull_points_def map_of_add_point_to set_add_point split: option.splits)

lemma map_of_register: "map_of (register known key nm) key \<noteq> None"
  by (auto simp: register_def map_add_def)

lemma strip_with_keeps_head:
  assumes "\<not> P c"
  shows "\<exists>r. strip_with P (c # cs) = c # r"
proof -
  have "dropWhile P (rev cs @ [c]) = (if \<forall>x \<in> set (rev cs). P x then [c] else dropWhile P (rev cs) @ [c])"
    using assms by (simp add: dropWhile_append)
  then have "\<exists>q. dropWhile P (rev (c # cs)) = q @ [c]" using assms by auto
  then obtain q where "dropWhile P (rev (c # cs)) = q @ [c]" by blast
  then have "rev (dropWhile P (rev (c # cs))) = c # rev q" by simp
  then show ?thesis using assms by (simp add: strip_with_def)
qed

lemma comment_line_no_point:
  assumes "startswith line '';''"
  shows "gcode_point lib line = Inr None"
proof -
  from assms obtain cs where l: "line = CHR '';'' # cs" by (auto simp: startswith_iff)
  have "\<not> isspace (CHR '';'')" by (simp add: isspace_def)
  from strip_with_keeps_head [of isspace "CHR '';''" cs, OF this] obtain r where "strip line = CHR '';'' # r"
    by (auto simp: strip_def l)
  then have "\<not> startswith (lower (strip line)) ''g''"
    by (simp add: lower_def lower_char_def upper_chars_def lower_chars_def)
  then show ?thesis by (simp add: gcode_point_def)
qed

lemma print_line_is_comment: "startswith line ''; printing object '' \<Longrightarrow> startswith line '';''"
  by (auto simp: startswith_iff)

lemma slicer_scan_line_effect:
  assumes "slicer_scan_line lib (known, cur) line = Inr (known', cur')"
    and "cur = None \<or> map_of known (the cur) \<noteq> None"
  shows "cur' = spec_owner cur [line]"
    and "cur' = None \<or> map_of known' (the cur') \<noteq> None"
    and "hull_points known' ident =
           hull_points known ident \<union> {p. cur' = Some ident \<and> gcode_point lib line = Inr (Some p)}"
proof -
  show "cur' = spec_owner cur [line]"
    using assms(1)
    by (auto simp: slicer_scan_line_def spec_print_id_def Let_def
        split: option.splits sum.splits if_splits)
next
  show "cur' = None \<or> map_of known' (the cur') \<noteq> None"
  proof (cases "startswith line ''; printing object ''")
    case True
    with assms(1) show ?thesis
      by (auto simp: slicer_scan_line_def Let_def track_point_def
          comment_line_no_point [OF print_line_is_comment [OF True]] map_of_register
          split: option.splits sum.splits)
  next
    case False
    with assms show ?thesis
      by (auto simp: slicer_scan_line_def track_point_def map_of_add_point_to
          split: option.splits sum.splits)
  qed
next
  show "hull_points known' ident =
           hull_points known ident \<union> {p. cur' = Some ident \<and> gcode_point lib line = Inr (Some p)}"
  proof (cases "startswith line ''; printing object ''")
    case True
    with assms(1) show ?thesis
      by (auto simp: slicer_scan_line_def Let_def track_point_def
          comment_line_no_point [OF print_line_is_comment [OF True]] hull_points_register
          split: option.splits sum.splits)
  next
    case False
    with assms show ?thesis
      by (auto simp: slicer_scan_line_def track_point_def hull_points_add_point_to
          split: option.splits sum.splits if_splits)
  qed
qed

lemma slicer_scan_points:
  assumes "slicer_scan lib (known, cur) lines = Inr (known', cur')"
    and "cur = None \<or> map_of known (the cur) \<noteq> None"
  shows "hull_points known' ident =
           hull_points known ident
             \<union> {p. \<exists>pre line post. lines = pre @ line # post
                      \<and> spec_owner cur (pre @ [line]) = Some ident
                      \<and> gcode_point lib line = Inr (Some p)}"
  using assms
proof (induction lines arbitrary: known cur)
  case Nil
  then show ?case by simp
next
  case (Cons l rest)
  from Cons.prems(1) obtain k1 c1 where
    step: "slicer_scan_line lib (known, cur) l = Inr (k1, c1)"
    and run: "slicer_scan lib (k1, c1) rest = Inr (known', cur')"
    by (auto split: sum.splits)
  note eff = slicer_scan_line_effect [OF step Cons.prems(2)]
  have c1: "c1 = (case spec_print_id l of Some i \<Rightarrow> Some i | None \<Rightarrow> cur)"
    using eff(1) by simp
  have ih: "hull_points known' ident =
           hull_points k1 ident
             \<union> {p. \<exists>pre line post. rest = pre @ line # post
                      \<and> spec_owner c1 (pre @ [line]) = Some ident
                      \<and> gcode_point lib line = Inr (Some p)}"
    by (rule Cons.IH [OF run eff(2)])
  have split: "{p. \<exists>pre line post. l # rest = pre @ line # post
                      \<and> spec_owner cur (pre @ [line]) = Some ident
                      \<and> gcode_point lib line = Inr (Some p)}
        = {p. c1 = Some ident \<and> gcode_point lib l = Inr (Some p)}
          \<union> {p. \<exists>pre line post. rest = pre @ line # post
                      \<and> spec_owner c1 (pre @ [line]) = Some ident
                      \<and> gcode_point lib line = Inr (Some p)}"
    (is "?L = ?A \<union> ?B")
  proof (intro set_eqI iffI)
    fix p
    assume "p \<in> ?L"
    then obtain pre line post where d: "l # rest = pre @ line # post"
      and o: "spec_owner cur (pre @ [line]) = Some ident"
      and g: "gcode_point lib line = Inr (Some p)" by blast
    show "p \<in> ?A \<union> ?B"
    proof (cases pre)
      case Nil
      with d o g show ?thesis by (auto simp: c1)
    next
      case (Cons x pre')
      with d have "x = l" and "rest = pre' @ line # post" by auto
      with o g Cons show ?thesis by (auto simp: c1)
    qed
  next
    fix p
    assume "p \<in> ?A \<union> ?B"
    then show "p \<in> ?L"
    proof
      assume "p \<in> ?A"
      then have "l # rest = [] @ l # rest \<and> spec_owner cur ([] @ [l]) = Some ident
                 \<and> gcode_point lib l = Inr (Some p)"
        by (auto simp: c1)
      then show ?thesis by blast
    next
      assume "p \<in> ?B"
      then obtain pre line post where "rest = pre @ line # post"
        and "spec_owner c1 (pre @ [line]) = Some ident"
        and "gcode_point lib line = Inr (Some p)" by blast
      then have "l # rest = (l # pre) @ line # post
                 \<and> spec_owner cur ((l # pre) @ [line]) = Some ident
                 \<and> gcode_point lib line = Inr (Some p)"
        by (auto simp: c1)
      then show ?thesis by blast
    qed
  qed
  show ?case
    unfolding split ih eff(3) by blast
qed

text \<open>
  Claim C3, amended. After a scan pass that raises nothing, the hull of an id holds
  exactly the points of the qualifying G-command lines that stand behind a
  \<open>; printing object\<close> line of this id with no \<open>; printing object\<close> line of any id in
  between. A \<open>; stop printing object\<close> line does not end the window: the scan pass does
  not look at it.
\<close>

theorem hull_collects_points_of_last_announced_object:
  assumes "slicer_scan lib ([], None) lines = Inr (known, cur)"
  shows "hull_points known ident =
           {p. \<exists>pre line post. lines = pre @ line # post
                 \<and> spec_owner None (pre @ [line]) = Some ident
                 \<and> gcode_point lib line = Inr (Some p)}"
  using slicer_scan_points [OF assms, of ident] by (simp add: hull_points_def)

lemma late_move_scan:
  "slicer_scan sample_lib ([], None) late_move_lines
     = Inr ([(''a'', \<lparr>name = ''a'', obj_hull = \<lparr>points = [(5, 5)]\<rparr>\<rparr>)], Some ''a'')"
  by (simp add: late_move_lines_def slicer_scan_line_def text_defs scan_defs sample_defs
      render_defs)

theorem hull_collects_points_of_last_announced_object_witness:
  "{p. \<exists>pre line post. late_move_lines = pre @ line # post
         \<and> spec_owner None (pre @ [line]) = Some ''a''
         \<and> gcode_point sample_lib line = Inr (Some p)} = {(5, 5)}"
  using hull_collects_points_of_last_announced_object [OF late_move_scan, of "''a''"]
  by (simp add: hull_points_def)

text \<open>
  Claim C3 as stated fails: a qualifying line behind the stop line of object \<open>a\<close>, outside
  the window of \<open>a\<close>, puts its point into the hull of \<open>a\<close>; no other line of the file
  yields a point.
\<close>

theorem point_recorded_behind_stop_line:
  "slicer_scan sample_lib ([], None) late_move_lines
     = Inr ([(''a'', \<lparr>name = ''a'', obj_hull = \<lparr>points = [(5, 5)]\<rparr>\<rparr>)], Some ''a'')
   \<and> gcode_point sample_lib (late_move_lines ! 0) = Inr None
   \<and> gcode_point sample_lib (late_move_lines ! 1) = Inr None
   \<and> gcode_point sample_lib (late_move_lines ! 2) = Inr (Some (5, 5))
   \<and> spec_window_open ''a'' False (take 1 late_move_lines)
   \<and> \<not> spec_window_open ''a'' False (take 2 late_move_lines)"
  by (simp add: late_move_lines_def slicer_scan_line_def text_defs scan_defs sample_defs
      render_defs spec_print_id_def spec_stop_id_def)

end
